theory Spec2Isabelle
  imports Main
begin

section \<open>The compiler's answers about a type\<close>

text \<open>
  \<open>builderGenerator.ts\<close> never builds a type itself: it asks the compiler object
  (\<open>Type\<close> of ts-morph) a fixed set of questions. A type is modelled by the answers to
  exactly those questions: its text, the eight classification predicates that
  \<open>builderParameterTypeMapper\<close> consults, the array element type, the union flag with the
  union constituents, and the property symbols. A property symbol answers \<open>getName()\<close>
  and, when it has a value declaration, the type found at that declaration;
  \<open>getValueDeclarationOrThrow()\<close> throws when there is none.

  Text is a list of 8-bit characters. The characters the generator looks for
  (\<open>import("\<close>, the quote, \<open>true\<close>, \<open>false\<close>, \<open>__typename\<close>) and those it emits
  are ASCII.
\<close>

record TypeFlags =
  flagString :: bool
  flagNumber :: bool
  flagLiteral :: bool
  flagBoolean :: bool
  flagUndefined :: bool
  flagNull :: bool
  flagAny :: bool
  flagEnum :: bool

datatype ts_type =
  Type (getText: string) (typeFlags: TypeFlags) (getArrayElementType: "ts_type option")
       (isUnion: bool) (getUnionTypes: "ts_type list") (getProperties: "ts_symbol list")
and ts_symbol =
  Symbol (symbolName: string) (valueDeclarationType: "ts_type option")

definition isString :: "ts_type \<Rightarrow> bool" where
  "isString t = flagString (typeFlags t)"

definition isNumber :: "ts_type \<Rightarrow> bool" where
  "isNumber t = flagNumber (typeFlags t)"

definition isLiteral :: "ts_type \<Rightarrow> bool" where
  "isLiteral t = flagLiteral (typeFlags t)"

definition isBoolean :: "ts_type \<Rightarrow> bool" where
  "isBoolean t = flagBoolean (typeFlags t)"

definition isUndefined :: "ts_type \<Rightarrow> bool" where
  "isUndefined t = flagUndefined (typeFlags t)"

definition isNull :: "ts_type \<Rightarrow> bool" where
  "isNull t = flagNull (typeFlags t)"

definition isAny :: "ts_type \<Rightarrow> bool" where
  "isAny t = flagAny (typeFlags t)"

definition isEnum :: "ts_type \<Rightarrow> bool" where
  "isEnum t = flagEnum (typeFlags t)"

text \<open>\<open>isArray()\<close> holds exactly when \<open>getArrayElementType()\<close> is defined.\<close>

definition isArray :: "ts_type \<Rightarrow> bool" where
  "isArray t = (getArrayElementType t \<noteq> None)"

text \<open>
  A declaration handed to \<open>generateBuilderFunc\<close> is a type alias or an interface; both
  answer \<open>getName()\<close> and \<open>getType()\<close>. A source file is its list of top-level
  statements; \<open>getTypeAliases()\<close> and \<open>getInterfaces()\<close> select from it in file order.
\<close>

datatype Declaration =
  TypeAliasDeclaration (getName: string) (getType: ts_type)
| InterfaceDeclaration (getName: string) (getType: ts_type)

datatype Statement = DeclarationStatement Declaration | OtherStatement

type_synonym SourceFile = "Statement list"

fun isTypeAliasStatement :: "Statement \<Rightarrow> bool" where
  "isTypeAliasStatement (DeclarationStatement (TypeAliasDeclaration n t)) = True"
| "isTypeAliasStatement s = False"

fun isInterfaceStatement :: "Statement \<Rightarrow> bool" where
  "isInterfaceStatement (DeclarationStatement (InterfaceDeclaration n t)) = True"
| "isInterfaceStatement s = False"

fun declarationsOf :: "Statement list \<Rightarrow> Declaration list" where
  "declarationsOf [] = []"
| "declarationsOf (DeclarationStatement d # ss) = d # declarationsOf ss"
| "declarationsOf (OtherStatement # ss) = declarationsOf ss"

definition getTypeAliases :: "SourceFile \<Rightarrow> Declaration list" where
  "getTypeAliases sourceFile = declarationsOf (filter isTypeAliasStatement sourceFile)"

definition getInterfaces :: "SourceFile \<Rightarrow> Declaration list" where
  "getInterfaces sourceFile = declarationsOf (filter isInterfaceStatement sourceFile)"

section \<open>String helpers of the generator\<close>

definition dquote :: char where
  "dquote = CHR 0x22"

definition squote :: char where
  "squote = CHR 0x27"

text \<open>
  Upper-casing of one ASCII character: the letters \<open>a\<close> to \<open>z\<close> are mapped, every other
  ASCII character is left as it is. The flag \<open>i\<close> of a regular expression compares
  characters in this way, and no character outside ASCII is equal to an ASCII one under
  it. For \<open>String.prototype.toUpperCase\<close> the table is exact on ASCII characters only:
  what the code does to a first letter outside ASCII (it may change it, and may lengthen
  the name) is not in the table, and a statement about the name of a setter is made for
  names that satisfy \<open>asciiInitial\<close> below.
\<close>

definition toUpperCase :: "char \<Rightarrow> char" where
  "toUpperCase c =
     (case map_of (zip ''abcdefghijklmnopqrstuvwxyz'' ''ABCDEFGHIJKLMNOPQRSTUVWXYZ'') c of
        Some u \<Rightarrow> u
      | None \<Rightarrow> c)"

text \<open>
  \<open>string.charAt(0).toUpperCase() + string.slice(1)\<close>, for a string that is empty (it
  stays empty) or begins with an ASCII character.
\<close>

fun capitalizeFirstLetter :: "string \<Rightarrow> string" where
  "capitalizeFirstLetter [] = []"
| "capitalizeFirstLetter (c # cs) = toUpperCase c # cs"

text \<open>\<open>Array.prototype.join\<close>.\<close>

fun join :: "string \<Rightarrow> string list \<Rightarrow> string" where
  "join sep [] = []"
| "join sep [x] = x"
| "join sep (x # y # ys) = x @ sep @ join sep (y # ys)"

subsection \<open>The replacement \<open>/import\("[^"]*"\)/gi\<close> by \<open>SchemaTypes\<close>\<close>

text \<open>
  The pattern is the eight characters \<open>import("\<close> compared ignoring case, then the
  longest run of characters other than the double quote, then a double quote and a
  closing parenthesis. The run cannot be shortened to make the rest match (a shorter run
  is followed by a character that is not a double quote), so an attempt at one position
  has one outcome: \<open>matchImport\<close> returns the text after the match, or \<open>None\<close>.
  With the flag \<open>g\<close> the text is scanned from left to right, a match is replaced and
  the scan goes on after it.
\<close>

definition importHead :: string where
  "importHead = ''import('' @ [dquote]"

definition isImportHead :: "string \<Rightarrow> bool" where
  "isImportHead s = (map toUpperCase (take 8 s) = map toUpperCase importHead)"

definition matchImport :: "string \<Rightarrow> string option" where
  "matchImport s =
     (if isImportHead s then
        (case dropWhile (\<lambda>c. c \<noteq> dquote) (drop 8 s) of
           q # r # rest \<Rightarrow> if r = CHR '')'' then Some rest else None
         | _ \<Rightarrow> None)
      else None)"

function replaceImports :: "string \<Rightarrow> string" where
  "replaceImports [] = []"
| "replaceImports (c # cs) =
     (case matchImport (c # cs) of
        Some rest \<Rightarrow> ''SchemaTypes'' @ replaceImports rest
      | None \<Rightarrow> c # replaceImports cs)"
  by pat_completeness auto
termination
proof (relation "measure length")
  show "wf (measure length)" by simp
next
  fix c :: char and cs rest :: string
  assume "matchImport (c # cs) = Some rest"
  then obtain q r where d: "dropWhile (\<lambda>c. c \<noteq> dquote) (drop 8 (c # cs)) = q # r # rest"
    by (auto simp: matchImport_def split: if_splits list.splits)
  have "length (dropWhile (\<lambda>c. c \<noteq> dquote) (drop 8 (c # cs))) \<le> length (drop 8 (c # cs))"
    by (rule length_dropWhile_le)
  with d have "length rest < length (c # cs)" by simp
  then show "(rest, c # cs) \<in> measure length" by simp
next
  fix c :: char and cs :: string
  show "(cs, c # cs) \<in> measure length" by simp
qed

declare replaceImports.simps [simp del]

section \<open>The structures the generator fills in\<close>

text \<open>
  The ts-morph structure objects, with the properties \<open>generateBuilderFunc\<close> sets. A
  property the code leaves out is \<open>None\<close>, or the empty list for an array. The body of
  \<open>get\<close> and of the factory function is one string in the code; here it is the list
  holding that string.
\<close>

datatype StructureKind = Method | Function | Class | Constructor

datatype Scope = Public | Private

record ParameterDeclarationStructure =
  parameterName :: string
  parameterType :: "string option"
  hasQuestionToken :: "bool option"
  initializer :: "string option"
  isReadonly :: "bool option"
  parameterScope :: "Scope option"

record MethodDeclarationStructure =
  methodKind :: StructureKind
  methodName :: string
  methodReturnType :: "string option"
  methodTypeParameters :: "string list"
  methodParameters :: "ParameterDeclarationStructure list"
  methodScope :: Scope
  methodStatements :: "string list"

record FunctionDeclarationStructure =
  functionKind :: StructureKind
  functionName :: string
  functionIsExported :: bool
  functionTypeParameters :: "string list"
  functionReturnType :: string
  functionParameters :: "ParameterDeclarationStructure list"
  functionStatements :: "string list"

record ConstructorDeclarationStructure =
  constructorKind :: StructureKind
  constructorParameters :: "ParameterDeclarationStructure list"

record ClassDeclarationStructure =
  classKind :: StructureKind
  className :: string
  ctors :: "ConstructorDeclarationStructure list"
  methods :: "MethodDeclarationStructure list"
  classIsExported :: bool

section \<open>The type mapper\<close>

text \<open>The list of eight predicates with \<open>.some(Boolean)\<close>.\<close>

definition isPrimitive :: "ts_type \<Rightarrow> bool" where
  "isPrimitive resultType =
     list_ex id
       [isString resultType, isNumber resultType, isLiteral resultType,
        isBoolean resultType, isUndefined resultType, isNull resultType,
        isAny resultType, isEnum resultType]"

definition builderParameterTypeMapper :: "ts_type \<Rightarrow> string" where
  "builderParameterTypeMapper subType =
     (let resultType = (case getArrayElementType subType of Some e \<Rightarrow> e | None \<Rightarrow> subType);
          resultTypeStr = replaceImports (getText resultType);
          resultTypeStr' =
            (if isPrimitive resultType then resultTypeStr
             else ''DeepPartial<'' @ resultTypeStr @ ''>'')
      in if isArray subType then resultTypeStr' @ ''[]'' else resultTypeStr')"

section \<open>The builder generator\<close>

datatype error = NoValueDeclaration string

text \<open>\<open>type.isUnion() ? type.getUnionTypes() : [type]\<close>\<close>

definition unionTypes :: "ts_type \<Rightarrow> ts_type list" where
  "unionTypes type = (if isUnion type then getUnionTypes type else [type])"

text \<open>The alternatives of a setter's type parameter, before and after \<open>join\<close>.\<close>

definition parameterAlternatives :: "ts_type list \<Rightarrow> string list" where
  "parameterAlternatives ts =
     map (\<lambda>t. if t = ''true'' then ''boolean'' else t)
       (filter (\<lambda>t. t \<noteq> ''false'') (map builderParameterTypeMapper ts))"

definition parametersType :: "ts_type \<Rightarrow> string" where
  "parametersType type = join '' | '' (parameterAlternatives (unionTypes type))"

definition setterMethod :: "string \<Rightarrow> string \<Rightarrow> ts_type \<Rightarrow> MethodDeclarationStructure" where
  "setterMethod className' propName type =
     \<lparr> methodKind = Method,
       methodName = ''with'' @ capitalizeFirstLetter propName,
       methodReturnType = Some className',
       methodTypeParameters = [''P extends '' @ parametersType type],
       methodParameters =
         [\<lparr> parameterName = ''val'', parameterType = Some ''P'', hasQuestionToken = None,
            initializer = None, isReadonly = None, parameterScope = None \<rparr>],
       methodScope = Public,
       methodStatements = [''this.obj.'' @ propName @ '' = val;'', ''return this;''] \<rparr>"

text \<open>
  The loop over \<open>props\<close>: the tag is passed over, a property without a value declaration
  throws, any other property pushes its setter onto \<open>methods\<close>.
\<close>

fun setterLoop ::
  "string \<Rightarrow> ts_symbol list \<Rightarrow> MethodDeclarationStructure list \<Rightarrow>
   error + MethodDeclarationStructure list" where
  "setterLoop className' [] methods' = Inr methods'"
| "setterLoop className' (prop # props) methods' =
     (let propName = symbolName prop in
      if propName = ''__typename'' then setterLoop className' props methods'
      else
        (case valueDeclarationType prop of
           None \<Rightarrow> Inl (NoValueDeclaration propName)
         | Some type \<Rightarrow>
             setterLoop className' props (methods' @ [setterMethod className' propName type])))"

definition includeTypenameMethod :: "string \<Rightarrow> MethodDeclarationStructure" where
  "includeTypenameMethod typeName =
     \<lparr> methodKind = Method,
       methodName = ''includeTypename'',
       methodReturnType = None,
       methodTypeParameters = [],
       methodParameters = [],
       methodScope = Public,
       methodStatements =
         [''// @ts-ignore'',
          ''this.obj.__typename = '' @ [squote] @ typeName @ [squote] @ '';'',
          ''return this;''] \<rparr>"

definition getMethod :: "string \<Rightarrow> MethodDeclarationStructure" where
  "getMethod typeName =
     \<lparr> methodKind = Method,
       methodName = ''get'',
       methodReturnType = Some (''SchemaTypes.'' @ typeName),
       methodTypeParameters = [],
       methodParameters = [],
       methodScope = Public,
       methodStatements = [''return this.obj as SchemaTypes.'' @ typeName @ '';''] \<rparr>"

definition builderFuncOf :: "string \<Rightarrow> FunctionDeclarationStructure" where
  "builderFuncOf typeName =
     (let className' = typeName @ ''Builder'' in
      \<lparr> functionKind = Function,
        functionName = ''a'' @ className',
        functionIsExported = True,
        functionTypeParameters = [''O extends DeepPartial<SchemaTypes.'' @ typeName @ ''> = {}''],
        functionReturnType = className',
        functionParameters =
          [\<lparr> parameterName = ''baseObj'', parameterType = Some ''O'',
             hasQuestionToken = Some True, initializer = None, isReadonly = None,
             parameterScope = None \<rparr>],
        functionStatements = [''return new '' @ className' @ ''(baseObj ?? {});''] \<rparr>)"

definition classObjOf :: "string \<Rightarrow> MethodDeclarationStructure list \<Rightarrow> ClassDeclarationStructure" where
  "classObjOf typeName methods' =
     \<lparr> classKind = Class,
       className = typeName @ ''Builder'',
       ctors =
         [\<lparr> constructorKind = Constructor,
            constructorParameters =
              [\<lparr> parameterName = ''obj'', parameterType = None, hasQuestionToken = None,
                 initializer = Some (''{} as DeepPartial<SchemaTypes.'' @ typeName @ ''>''),
                 isReadonly = Some True, parameterScope = Some Private \<rparr>] \<rparr>],
       methods = methods',
       classIsExported = True \<rparr>"

text \<open>
  What one call leaves behind: the lines it wrote with \<open>console.warn\<close>, and the returned
  object, \<open>{}\<close> (\<open>None\<close>) or \<open>{ builderFunc, classObj }\<close>. A throw is \<open>Inl\<close>; no
  warning is written on a path that throws.
\<close>

record Generated =
  warnings :: "string list"
  returned :: "(FunctionDeclarationStructure \<times> ClassDeclarationStructure) option"

definition generateBuilderFunc :: "Declaration \<Rightarrow> error + Generated" where
  "generateBuilderFunc typeAlias =
     (let rootType = getType typeAlias;
          props = getProperties rootType
      in
      if length props \<le> 0 then Inr \<lparr> warnings = [], returned = None \<rparr>
      else if isUnion rootType then
        Inr \<lparr> warnings = [''Skipped type generation for union: '' @ getName typeAlias],
              returned = None \<rparr>
      else
        (let typeName = getName typeAlias;
             className' = typeName @ ''Builder''
         in
         case setterLoop className' props [] of
           Inl e \<Rightarrow> Inl e
         | Inr methods' \<Rightarrow>
             Inr \<lparr> warnings = [],
                   returned =
                     Some (builderFuncOf typeName,
                           classObjOf typeName
                             (methods' @ [includeTypenameMethod typeName, getMethod typeName])) \<rparr>))"

section \<open>The two loops of \<open>generateBuilders\<close>\<close>

text \<open>
  Lines 41 to 75 of \<open>generateBuilders\<close>: the type aliases of the source file are visited
  first, then its interfaces. Each visit calls \<open>generateBuilderFunc\<close>, whose warnings
  go to the console, and pushes the returned pair when there is one. The project setup
  before and the file writing after are outside the model.
\<close>

record Collected =
  console :: "string list"
  classesAndFactories :: "(ClassDeclarationStructure \<times> FunctionDeclarationStructure) list"

definition emptyCollected :: Collected where
  "emptyCollected = \<lparr> console = [], classesAndFactories = [] \<rparr>"

definition pushGenerated :: "Generated \<Rightarrow> Collected \<Rightarrow> Collected" where
  "pushGenerated g st =
     \<lparr> console = console st @ warnings g,
       classesAndFactories =
         (case returned g of
            None \<Rightarrow> classesAndFactories st
          | Some (builderFunc, classObj) \<Rightarrow> classesAndFactories st @ [(classObj, builderFunc)]) \<rparr>"

fun declarationLoop :: "Declaration list \<Rightarrow> Collected \<Rightarrow> error + Collected" where
  "declarationLoop [] st = Inr st"
| "declarationLoop (d # ds) st =
     (case generateBuilderFunc d of
        Inl e \<Rightarrow> Inl e
      | Inr g \<Rightarrow> declarationLoop ds (pushGenerated g st))"

definition collectBuilders :: "SourceFile \<Rightarrow> error + Collected" where
  "collectBuilders sourceFile =
     (let allTypes = getTypeAliases sourceFile;
          allInterfaces = getInterfaces sourceFile
      in case declarationLoop allTypes emptyCollected of
           Inl e \<Rightarrow> Inl e
         | Inr st \<Rightarrow> declarationLoop allInterfaces st)"

section \<open>Notions used to state the properties\<close>

text \<open>The fields of a declaration other than the discriminator tag, in declared order.\<close>

definition settableFields :: "Declaration \<Rightarrow> ts_symbol list" where
  "settableFields d =
     filter (\<lambda>p. symbolName p \<noteq> ''__typename'') (getProperties (getType d))"

text \<open>
  A name whose first character, if there is one, is ASCII. On such a name
  \<open>capitalizeFirstLetter\<close> above is what the code computes; on a name that begins with
  another letter the code's \<open>toUpperCase()\<close> may change that letter, which the table of
  \<open>toUpperCase\<close> above does not.
\<close>

definition asciiInitial :: "string \<Rightarrow> bool" where
  "asciiInitial name = (case name of [] \<Rightarrow> True | c # cs \<Rightarrow> (of_char c :: nat) < 128)"

text \<open>
  The rendering of a type in the words of the specification. A type is primitive when
  one of the eight predicates holds of it. The type that is classified is the element
  type of an array and the type itself otherwise. Its rendering is its text after the
  replacement of the module-qualified references, bare when it is primitive and inside
  \<open>DeepPartial<...>\<close> when it is not.

  The accepted type of a setter, in the words of the specification. A constituent whose
  rendering is the text \<open>false\<close> gives no alternative, one whose rendering is the text
  \<open>true\<close> gives the alternative \<open>boolean\<close>, any other gives its rendering. The
  alternatives are written in order with \<open> | \<close> between them.
\<close>

definition primitiveByPredicates :: "ts_type \<Rightarrow> bool" where
  "primitiveByPredicates t =
     (isString t \<or> isNumber t \<or> isLiteral t \<or> isBoolean t \<or> isUndefined t \<or> isNull t \<or>
      isAny t \<or> isEnum t)"

definition classifiedType :: "ts_type \<Rightarrow> ts_type" where
  "classifiedType t = (case getArrayElementType t of Some e \<Rightarrow> e | None \<Rightarrow> t)"

definition bareOrWrapped :: "ts_type \<Rightarrow> string" where
  "bareOrWrapped t =
     (if primitiveByPredicates t then replaceImports (getText t)
      else ''DeepPartial<'' @ replaceImports (getText t) @ ''>'')"

definition alternativeOf :: "string \<Rightarrow> string list" where
  "alternativeOf rendering =
     (if rendering = ''false'' then []
      else if rendering = ''true'' then [''boolean'']
      else [rendering])"

definition separatedByBar :: "string list \<Rightarrow> string" where
  "separatedByBar alternatives =
     (case alternatives of
        [] \<Rightarrow> []
      | a # rest \<Rightarrow> a @ concat (map (\<lambda>b. '' | '' @ b) rest))"

text \<open>
  The extractor of the specification: every top-level type alias in file order, followed
  by every top-level interface in file order.
\<close>

fun isTypeAlias :: "Declaration \<Rightarrow> bool" where
  "isTypeAlias (TypeAliasDeclaration n t) = True"
| "isTypeAlias (InterfaceDeclaration n t) = False"

fun isInterface :: "Declaration \<Rightarrow> bool" where
  "isInterface (TypeAliasDeclaration n t) = False"
| "isInterface (InterfaceDeclaration n t) = True"

definition extractDeclarations :: "SourceFile \<Rightarrow> Declaration list" where
  "extractDeclarations sourceFile =
     filter isTypeAlias (declarationsOf sourceFile) @ filter isInterface (declarationsOf sourceFile)"

text \<open>
  A text in which the module-qualified references are known. A reference is
  \<open>import("path")\<close> with no double quote in the path. A text is a sequence of pairs, each
  a stretch of other text and the path of the reference after it, and a last stretch;
  at no position of a stretch does \<open>import("\<close> begin, in any letter case.
  \<open>qualifiedText\<close> is the text as the compiler prints it, \<open>aliasedText\<close> the same text
  with \<open>SchemaTypes\<close> in place of every reference.
\<close>

fun noImportHead :: "string \<Rightarrow> bool" where
  "noImportHead [] = True"
| "noImportHead (c # cs) = (\<not> isImportHead (c # cs) \<and> noImportHead cs)"

definition moduleReference :: "string \<Rightarrow> string" where
  "moduleReference path = importHead @ path @ [dquote] @ '')''"

fun qualifiedText :: "(string \<times> string) list \<Rightarrow> string \<Rightarrow> string" where
  "qualifiedText [] tail = tail"
| "qualifiedText ((plain, path) # segs) tail =
     plain @ moduleReference path @ qualifiedText segs tail"

fun aliasedText :: "(string \<times> string) list \<Rightarrow> string \<Rightarrow> string" where
  "aliasedText [] tail = tail"
| "aliasedText ((plain, path) # segs) tail = plain @ ''SchemaTypes'' @ aliasedText segs tail"

fun wellFormedSegments :: "(string \<times> string) list \<Rightarrow> bool" where
  "wellFormedSegments [] = True"
| "wellFormedSegments ((plain, path) # segs) =
     (noImportHead plain \<and> list_all (\<lambda>c. c \<noteq> dquote) path \<and> wellFormedSegments segs)"

text \<open>
  What the statements of a generated method do to the accumulator \<open>this.obj\<close>, for the
  statement shapes \<open>generateBuilderFunc\<close> emits: a line comment does nothing;
  \<open>this.obj.f = val;\<close> stores the argument under \<open>f\<close>; \<open>this.obj.f = 'text';\<close>
  stores the string, where the literal holds no quote, backslash or line break;
  \<open>return this;\<close> ends the call. Any other statement has no reading (\<open>None\<close>). The
  accumulator is a map from field names to values.
\<close>

datatype js_value = StringValue string | OtherValue nat

type_synonym accumulator = "string \<Rightarrow> js_value option"

definition literalChar :: "char \<Rightarrow> bool" where
  "literalChar c = (c \<noteq> squote \<and> c \<noteq> CHR 0x5C \<and> c \<noteq> CHR 0x0A \<and> c \<noteq> CHR 0x0D)"

definition stringLiteral :: "string \<Rightarrow> string option" where
  "stringLiteral e =
     (case e of
        [] \<Rightarrow> None
      | q # rest \<Rightarrow>
          if q = squote \<and> rest \<noteq> [] \<and> last rest = squote \<and> list_all literalChar (butlast rest)
          then Some (butlast rest) else None)"

definition runStatement :: "js_value \<Rightarrow> string \<Rightarrow> accumulator \<Rightarrow> accumulator option" where
  "runStatement val stmt obj =
     (if take 2 stmt = ''//'' then Some obj
      else if take 9 stmt = ''this.obj.'' then
        (let field = takeWhile (\<lambda>c. c \<noteq> CHR '' '') (drop 9 stmt);
             rest = drop (9 + length field) stmt
         in if rest = '' = val;'' then Some (obj(field \<mapsto> val))
            else if take 3 rest = '' = '' \<and> last rest = CHR '';'' then
              (case stringLiteral (butlast (drop 3 rest)) of
                 None \<Rightarrow> None
               | Some s \<Rightarrow> Some (obj(field \<mapsto> StringValue s)))
            else None)
      else None)"

fun runBody :: "js_value \<Rightarrow> string list \<Rightarrow> accumulator \<Rightarrow> accumulator option" where
  "runBody val [] obj = Some obj"
| "runBody val (stmt # stmts) obj =
     (if stmt = ''return this;'' then Some obj
      else (case runStatement val stmt obj of
              None \<Rightarrow> None
            | Some obj' \<Rightarrow> runBody val stmts obj'))"

section \<open>Example inputs\<close>

definition noFlags :: TypeFlags where
  "noFlags = \<lparr> flagString = False, flagNumber = False, flagLiteral = False,
     flagBoolean = False, flagUndefined = False, flagNull = False, flagAny = False,
     flagEnum = False \<rparr>"

definition tString :: ts_type where
  "tString = Type ''string'' (noFlags\<lparr>flagString := True\<rparr>) None False [] []"

definition tNumber :: ts_type where
  "tNumber = Type ''number'' (noFlags\<lparr>flagNumber := True\<rparr>) None False [] []"

text \<open>
  \<open>type Shape = Circle | Square\<close>, two object types with no property in common: the
  union has no property. \<open>type Pet = Cat | Dog\<close>, both with a \<open>name\<close>: the union has
  that one property.
\<close>

definition tCircle :: ts_type where
  "tCircle = Type ''Circle'' noFlags None False [] [Symbol ''radius'' (Some tNumber)]"

definition tSquare :: ts_type where
  "tSquare = Type ''Square'' noFlags None False [] [Symbol ''side'' (Some tNumber)]"

definition shapeDecl :: Declaration where
  "shapeDecl =
     TypeAliasDeclaration ''Shape'' (Type ''Shape'' noFlags None True [tCircle, tSquare] [])"

definition petDecl :: Declaration where
  "petDecl =
     TypeAliasDeclaration ''Pet''
       (Type ''Pet'' noFlags None True
          [Type ''Cat'' noFlags None False []
             [Symbol ''name'' (Some tString), Symbol ''indoor'' (Some tNumber)],
           Type ''Dog'' noFlags None False []
             [Symbol ''name'' (Some tString), Symbol ''size'' (Some tNumber)]]
          [Symbol ''name'' (Some tString)])"

text \<open>
  \<open>interface Circle { __typename: "Circle"; id: string; radius: number }\<close> and the
  class \<open>generateBuilderFunc\<close> returns for it.
\<close>

definition tCircleTag :: ts_type where
  "tCircleTag = Type ([dquote] @ ''Circle'' @ [dquote]) (noFlags\<lparr>flagLiteral := True\<rparr>) None False [] []"

definition circleDecl :: Declaration where
  "circleDecl =
     InterfaceDeclaration ''Circle''
       (Type ''Circle'' noFlags None False []
          [Symbol ''__typename'' (Some tCircleTag), Symbol ''id'' (Some tString),
           Symbol ''radius'' (Some tNumber)])"

definition circleClass :: ClassDeclarationStructure where
  "circleClass =
     classObjOf ''Circle''
       [setterMethod ''CircleBuilder'' ''id'' tString,
        setterMethod ''CircleBuilder'' ''radius'' tNumber,
        includeTypenameMethod ''Circle'', getMethod ''Circle'']"

text \<open>
  The literal types \<open>true\<close> and \<open>false\<close>; \<open>boolean\<close>, which the compiler holds as the
  union of the two; \<open>string | false\<close>; and \<open>unknown\<close>, of which none of the eight
  predicates holds.
\<close>

definition tTrue :: ts_type where
  "tTrue = Type ''true'' (noFlags\<lparr>flagLiteral := True\<rparr>) None False [] []"

definition tFalse :: ts_type where
  "tFalse = Type ''false'' (noFlags\<lparr>flagLiteral := True\<rparr>) None False [] []"

definition tBoolean :: ts_type where
  "tBoolean = Type ''boolean'' (noFlags\<lparr>flagBoolean := True\<rparr>) None True [tFalse, tTrue] []"

definition tStringOrFalse :: ts_type where
  "tStringOrFalse = Type ''string | false'' noFlags None True [tString, tFalse] []"

definition tUnknown :: ts_type where
  "tUnknown = Type ''unknown'' noFlags None False [] []"

text \<open>
  \<open>type Limits = Record<"min" | "max", number>\<close>: the properties of a mapped type have
  no value declaration.
\<close>

definition limitsDecl :: Declaration where
  "limitsDecl =
     TypeAliasDeclaration ''Limits''
       (Type ''Limits'' noFlags None False [] [Symbol ''min'' None, Symbol ''max'' None])"

text \<open>\<open>interface Switch { label: string; disabled: false }\<close>\<close>

definition switchDecl :: Declaration where
  "switchDecl =
     InterfaceDeclaration ''Switch''
       (Type ''Switch'' noFlags None False []
          [Symbol ''label'' (Some tString), Symbol ''disabled'' (Some tFalse)])"

definition switchClass :: ClassDeclarationStructure where
  "switchClass =
     classObjOf ''Switch''
       [setterMethod ''SwitchBuilder'' ''label'' tString,
        setterMethod ''SwitchBuilder'' ''disabled'' tFalse,
        includeTypenameMethod ''Switch'', getMethod ''Switch'']"

text \<open>
  A reference to a declared shape \<open>Foo\<close> of the schema module, as the compiler prints
  it; the generic \<open>Maybe<Foo>\<close> and the enum \<open>Color\<close> of the same module; arrays of
  strings, of \<open>Foo\<close>, and of arrays of strings.
\<close>

definition fooText :: string where
  "fooText = ''import('' @ [dquote] @ ''/src/schema'' @ [dquote] @ '').Foo''"

definition tFoo :: ts_type where
  "tFoo = Type fooText noFlags None False [] [Symbol ''id'' (Some tString)]"

definition tMaybeFoo :: ts_type where
  "tMaybeFoo =
     Type (qualifiedText [([], ''/src/schema''), (''.Maybe<'', ''/src/schema'')] ''.Foo>'')
       noFlags None False [] []"

definition tColor :: ts_type where
  "tColor =
     Type (qualifiedText [([], ''/src/schema'')] ''.Color'') (noFlags\<lparr>flagEnum := True\<rparr>)
       None False [] []"

definition tStringArray :: ts_type where
  "tStringArray = Type ''string[]'' noFlags (Some tString) False [] []"

definition tFooArray :: ts_type where
  "tFooArray =
     Type (fooText @ ''[]'') noFlags (Some tFoo) False [] []"

definition tStringMatrix :: ts_type where
  "tStringMatrix = Type ''string[][]'' noFlags (Some tStringArray) False [] []"

text \<open>
  An interface with one field of each kind of type above:
  \<open>interface Order { __typename: "Order"; id: string; owner: Foo; tags: string[];
  items: Foo[]; paid: boolean; payload: unknown; note: string | false; kind: Color;
  wrapped: Maybe<Foo>; grid: string[][]; enabled: true }\<close>,
  and the class \<open>generateBuilderFunc\<close> returns for it.
\<close>

definition tOrderTag :: ts_type where
  "tOrderTag =
     Type ([dquote] @ ''Order'' @ [dquote]) (noFlags\<lparr>flagLiteral := True\<rparr>) None False [] []"

definition orderFields :: "(string \<times> ts_type) list" where
  "orderFields =
     [(''id'', tString), (''owner'', tFoo), (''tags'', tStringArray), (''items'', tFooArray),
      (''paid'', tBoolean), (''payload'', tUnknown), (''note'', tStringOrFalse),
      (''kind'', tColor), (''wrapped'', tMaybeFoo), (''grid'', tStringMatrix),
      (''enabled'', tTrue)]"

definition orderDecl :: Declaration where
  "orderDecl =
     InterfaceDeclaration ''Order''
       (Type ''Order'' noFlags None False []
          (Symbol ''__typename'' (Some tOrderTag) #
           map (\<lambda>(n, t). Symbol n (Some t)) orderFields))"

definition orderClass :: ClassDeclarationStructure where
  "orderClass =
     classObjOf ''Order''
       (map (\<lambda>(n, t). setterMethod ''OrderBuilder'' n t) orderFields @
        [includeTypenameMethod ''Order'', getMethod ''Order''])"

text \<open>A source file with an interface before the type aliases.\<close>

definition exampleFile :: SourceFile where
  "exampleFile =
     [DeclarationStatement circleDecl, OtherStatement, DeclarationStatement shapeDecl,
      DeclarationStatement switchDecl, DeclarationStatement petDecl]"

section \<open>The setter loop\<close>

lemma setterLoop_result:
  "setterLoop cn props ms = Inr r \<Longrightarrow>
   r = ms @ map (\<lambda>p. setterMethod cn (symbolName p) (the (valueDeclarationType p)))
              (filter (\<lambda>p. symbolName p \<noteq> ''__typename'') props)"
proof (induction props arbitrary: ms)
  case Nil
  then show ?case by simp
next
  case (Cons p props)
  show ?case
  proof (cases "symbolName p = ''__typename''")
    case True
    with Cons show ?thesis by simp
  next
    case False
    with Cons.prems obtain ty where ty: "valueDeclarationType p = Some ty"
      by (cases "valueDeclarationType p") (simp_all add: Let_def)
    with False Cons.prems
    have "setterLoop cn props (ms @ [setterMethod cn (symbolName p) ty]) = Inr r"
      by (simp add: Let_def)
    from Cons.IH [OF this] False ty show ?thesis by simp
  qed
qed

lemma setterLoop_declared:
  "setterLoop cn props ms = Inr r \<Longrightarrow> p \<in> set props \<Longrightarrow>
   symbolName p \<noteq> ''__typename'' \<Longrightarrow> valueDeclarationType p \<noteq> None"
proof (induction props arbitrary: ms)
  case Nil
  then show ?case by simp
next
  case (Cons q props)
  show ?case
  proof (cases "symbolName q = ''__typename''")
    case True
    with Cons show ?thesis by auto
  next
    case False
    with Cons.prems obtain ty where ty: "valueDeclarationType q = Some ty"
      by (cases "valueDeclarationType q") (simp_all add: Let_def)
    with False Cons.prems
    have "setterLoop cn props (ms @ [setterMethod cn (symbolName q) ty]) = Inr r"
      by (simp add: Let_def)
    with Cons.IH Cons.prems ty show ?thesis by auto
  qed
qed

lemma setterLoop_throws_iff:
  "(\<exists>e. setterLoop cn props ms = Inl e) \<longleftrightarrow>
   (\<exists>p \<in> set props. symbolName p \<noteq> ''__typename'' \<and> valueDeclarationType p = None)"
  by (induction props arbitrary: ms) (auto simp: Let_def split: option.splits)

lemma generated_methods:
  assumes "generateBuilderFunc d = Inr \<lparr> warnings = w, returned = Some (bf, cls) \<rparr>"
  shows "methods cls =
           map (\<lambda>p. setterMethod (getName d @ ''Builder'') (symbolName p)
                      (the (valueDeclarationType p)))
             (settableFields d)
           @ [includeTypenameMethod (getName d), getMethod (getName d)]"
  using assms
  by (auto simp: generateBuilderFunc_def Let_def settableFields_def classObjOf_def
      split: if_splits sum.splits dest: setterLoop_result)

section \<open>Facts about the helpers and the examples\<close>

lemmas flag_defs = isPrimitive_def isString_def isNumber_def isLiteral_def isBoolean_def
  isUndefined_def isNull_def isAny_def isEnum_def

lemma isPrimitive_iff:
  "isPrimitive t \<longleftrightarrow>
     (isString t \<or> isNumber t \<or> isLiteral t \<or> isBoolean t \<or> isUndefined t \<or> isNull t \<or>
      isAny t \<or> isEnum t)"
  by (simp add: isPrimitive_def)

lemma isImportHead_length: "isImportHead s \<Longrightarrow> 8 \<le> length s"
proof -
  assume "isImportHead s"
  then have "length (map toUpperCase (take 8 s)) = length (map toUpperCase importHead)"
    by (simp only: isImportHead_def)
  then show ?thesis by (simp add: importHead_def)
qed

lemma matchImport_short: "length s < 8 \<Longrightarrow> matchImport s = None"
  using isImportHead_length [of s] by (auto simp: matchImport_def)

lemma replaceImports_short: "length s < 8 \<Longrightarrow> replaceImports s = s"
proof (induction s)
  case Nil
  then show ?case by (simp add: replaceImports.simps)
next
  case (Cons c cs)
  then have "matchImport (c # cs) = None" by (intro matchImport_short)
  with Cons show ?case by (simp add: replaceImports.simps)
qed

lemma replaceImports_true: "replaceImports ''true'' = ''true''"
  by (simp add: replaceImports_short)

lemma replaceImports_false: "replaceImports ''false'' = ''false''"
  by (simp add: replaceImports_short)

lemma mapper_tTrue: "builderParameterTypeMapper tTrue = ''true''"
  by (simp add: builderParameterTypeMapper_def tTrue_def isArray_def flag_defs noFlags_def
      replaceImports_true)

lemma mapper_tFalse: "builderParameterTypeMapper tFalse = ''false''"
  by (simp add: builderParameterTypeMapper_def tFalse_def isArray_def flag_defs noFlags_def
      replaceImports_false)

lemma mapper_tString: "builderParameterTypeMapper tString = ''string''"
  by (simp add: builderParameterTypeMapper_def tString_def isArray_def flag_defs noFlags_def
      replaceImports_short)

lemma mapper_tUnknown: "builderParameterTypeMapper tUnknown = ''DeepPartial<unknown>''"
  by (simp add: builderParameterTypeMapper_def tUnknown_def isArray_def flag_defs noFlags_def
      replaceImports_short)

lemma circleDecl_generated:
  "generateBuilderFunc circleDecl =
     Inr \<lparr> warnings = [], returned = Some (builderFuncOf ''Circle'', circleClass) \<rparr>"
  by (simp add: generateBuilderFunc_def circleDecl_def circleClass_def Let_def)

lemma circleDecl_fields:
  "settableFields circleDecl = [Symbol ''id'' (Some tString), Symbol ''radius'' (Some tNumber)]"
  by (simp add: settableFields_def circleDecl_def)

lemma switchDecl_generated:
  "generateBuilderFunc switchDecl =
     Inr \<lparr> warnings = [], returned = Some (builderFuncOf ''Switch'', switchClass) \<rparr>"
  by (simp add: generateBuilderFunc_def switchDecl_def switchClass_def Let_def)

lemma replaceImports_schema_Foo:
  "replaceImports fooText = ''SchemaTypes.Foo''"
  by (simp add: fooText_def replaceImports.simps matchImport_def isImportHead_def importHead_def dquote_def
      toUpperCase_def)

lemma declarationLoop_append:
  "declarationLoop (xs @ ys) st =
     (case declarationLoop xs st of Inl e \<Rightarrow> Inl e | Inr st' \<Rightarrow> declarationLoop ys st')"
  by (induction xs arbitrary: st) (simp_all split: sum.splits)

lemma getTypeAliases_filter: "getTypeAliases sf = filter isTypeAlias (declarationsOf sf)"
  unfolding getTypeAliases_def
proof (induction sf)
  case Nil
  show ?case by simp
next
  case (Cons s sf)
  show ?case
  proof (cases s)
    case (DeclarationStatement d)
    with Cons show ?thesis by (cases d) simp_all
  next
    case OtherStatement
    with Cons show ?thesis by simp
  qed
qed

lemma getInterfaces_filter: "getInterfaces sf = filter isInterface (declarationsOf sf)"
  unfolding getInterfaces_def
proof (induction sf)
  case Nil
  show ?case by simp
next
  case (Cons s sf)
  show ?case
  proof (cases s)
    case (DeclarationStatement d)
    with Cons show ?thesis by (cases d) simp_all
  next
    case OtherStatement
    with Cons show ?thesis by simp
  qed
qed

lemma toUpperCase_dquote: "toUpperCase c = dquote \<Longrightarrow> c = dquote"
  by (auto simp: toUpperCase_def dquote_def split: option.splits if_splits)

lemma isImportHead_nth7:
  assumes "isImportHead s"
  shows "s ! 7 = dquote"
proof -
  from assms have len: "8 \<le> length s" by (rule isImportHead_length)
  from assms have "map toUpperCase (take 8 s) ! 7 = map toUpperCase importHead ! 7"
    by (simp only: isImportHead_def)
  with len have "toUpperCase (s ! 7) = toUpperCase dquote"
    by (simp add: importHead_def)
  moreover have "toUpperCase dquote = dquote"
    by (simp add: toUpperCase_def dquote_def)
  ultimately show ?thesis by (simp add: toUpperCase_dquote)
qed

lemma moduleReference_nth: "j < 7 \<Longrightarrow> (moduleReference path @ rest) ! j \<noteq> dquote"
proof -
  assume "j < 7"
  then consider "j = 0" | "j = 1" | "j = 2" | "j = 3" | "j = 4" | "j = 5" | "j = 6"
    by arith
  then show ?thesis
    by cases (simp_all add: moduleReference_def importHead_def dquote_def)
qed

lemma no_head_across:
  assumes "\<not> isImportHead s" and "s \<noteq> []"
    and "x = [] \<or> (\<exists>path rest. x = moduleReference path @ rest)"
  shows "\<not> isImportHead (s @ x)"
proof
  assume h: "isImportHead (s @ x)"
  then have len: "8 \<le> length (s @ x)" by (rule isImportHead_length)
  from h have q: "(s @ x) ! 7 = dquote" by (rule isImportHead_nth7)
  show False
  proof (cases "8 \<le> length s")
    case True
    then have "take 8 (s @ x) = take 8 s" by simp
    moreover from h have "map toUpperCase (take 8 (s @ x)) = map toUpperCase importHead"
      by (simp only: isImportHead_def)
    ultimately have "isImportHead s" by (simp only: isImportHead_def)
    with assms(1) show False by simp
  next
    case False
    with len have "x \<noteq> []" by auto
    with assms(3) obtain path rest where x: "x = moduleReference path @ rest" by auto
    from assms(2) have "0 < length s" by simp
    with False have j: "7 - length s < 7" and k: "\<not> 7 < length s" by arith+
    from k have "(s @ x) ! 7 = x ! (7 - length s)" by (simp add: nth_append)
    with q have "x ! (7 - length s) = dquote" by simp
    then have "(moduleReference path @ rest) ! (7 - length s) = dquote" by (simp only: x)
    with moduleReference_nth [OF j, of path rest] show False by simp
  qed
qed

lemma replaceImports_plain:
  assumes "noImportHead plain"
    and "x = [] \<or> (\<exists>path rest. x = moduleReference path @ rest)"
  shows "replaceImports (plain @ x) = plain @ replaceImports x"
  using assms(1)
proof (induction plain)
  case Nil
  show ?case by simp
next
  case (Cons c cs)
  then have "\<not> isImportHead (c # cs)" and t: "noImportHead cs" by simp_all
  then have "\<not> isImportHead ((c # cs) @ x)" using assms(2) by (intro no_head_across) simp_all
  then have "matchImport (c # cs @ x) = None" by (simp add: matchImport_def)
  with Cons.IH [OF t] show ?case by (simp add: replaceImports.simps)
qed

lemma matchImport_reference:
  assumes "list_all (\<lambda>c. c \<noteq> dquote) path"
  shows "matchImport (moduleReference path @ rest) = Some rest"
proof -
  have h: "isImportHead (moduleReference path @ rest)"
    by (simp add: isImportHead_def moduleReference_def importHead_def)
  have "drop 8 (moduleReference path @ rest) = path @ dquote # CHR '')'' # rest"
    by (simp add: moduleReference_def importHead_def)
  moreover have "dropWhile (\<lambda>c. c \<noteq> dquote) (path @ dquote # CHR '')'' # rest) =
                 dquote # CHR '')'' # rest"
    using assms by (induction path) simp_all
  ultimately show ?thesis using h by (simp add: matchImport_def)
qed

lemma replaceImports_reference:
  assumes "list_all (\<lambda>c. c \<noteq> dquote) path"
  shows "replaceImports (moduleReference path @ rest) = ''SchemaTypes'' @ replaceImports rest"
proof -
  obtain c cs where e: "moduleReference path @ rest = c # cs"
    by (simp add: moduleReference_def importHead_def)
  from matchImport_reference [OF assms, of rest] e have "matchImport (c # cs) = Some rest"
    by simp
  then have "replaceImports (c # cs) = ''SchemaTypes'' @ replaceImports rest"
    by (simp add: replaceImports.simps)
  with e show ?thesis by simp
qed

lemma replaceImports_segments:
  "wellFormedSegments segs \<Longrightarrow> noImportHead tail \<Longrightarrow>
   replaceImports (qualifiedText segs tail) = aliasedText segs tail"
proof (induction segs)
  case Nil
  with replaceImports_plain [of tail "[]"] show ?case by (simp add: replaceImports.simps)
next
  case (Cons seg segs)
  obtain plain path where seg: "seg = (plain, path)" by (cases seg)
  with Cons.prems have p: "noImportHead plain" and q: "list_all (\<lambda>c. c \<noteq> dquote) path"
    and w: "wellFormedSegments segs" by simp_all
  have "replaceImports (plain @ moduleReference path @ qualifiedText segs tail) =
        plain @ replaceImports (moduleReference path @ qualifiedText segs tail)"
    using p by (intro replaceImports_plain) auto
  also have "\<dots> = plain @ ''SchemaTypes'' @ replaceImports (qualifiedText segs tail)"
    by (simp only: replaceImports_reference [OF q])
  finally show ?case using Cons.IH [OF w Cons.prems(2)] seg by simp
qed

lemma toUpperCase_underscore: "toUpperCase c = CHR ''_'' \<Longrightarrow> c = CHR ''_''"
  by (auto simp: toUpperCase_def split: option.splits if_splits)

lemma capitalize_tag: "capitalizeFirstLetter n = ''__typename'' \<Longrightarrow> n = ''__typename''"
  by (cases n) (auto dest: toUpperCase_underscore)

lemma setter_not_for_tag:
  assumes "n \<noteq> ''__typename''"
  shows "methodName (setterMethod cn n ty) \<noteq> ''with__typename'' \<and>
         ''this.obj.__typename = val;'' \<notin> set (methodStatements (setterMethod cn n ty))"
proof -
  have "''this.obj.'' @ n @ '' = val;'' \<noteq> ''this.obj.'' @ ''__typename'' @ '' = val;''"
    using assms by (simp only: same_append_eq append_same_eq) simp
  then have "''this.obj.'' @ n @ '' = val;'' \<noteq> ''this.obj.__typename = val;''" by simp
  moreover have "''with'' @ capitalizeFirstLetter n \<noteq> ''with__typename''"
    using assms capitalize_tag [of n] by auto
  ultimately show ?thesis by (simp add: setterMethod_def)
qed

lemma stringLiteral_quoted:
  "list_all literalChar n \<Longrightarrow> stringLiteral (squote # n @ [squote]) = Some n"
  by (simp add: stringLiteral_def)

lemma run_includeTypename:
  assumes "list_all literalChar n"
  shows "runBody val (methodStatements (includeTypenameMethod n)) obj =
           Some (obj(''__typename'' \<mapsto> StringValue n))"
proof -
  let ?s = "''this.obj.__typename = '' @ [squote] @ n @ [squote] @ '';''"
  have f: "takeWhile (\<lambda>c. c \<noteq> CHR '' '') (drop 9 ?s) = ''__typename''" by simp
  have r: "drop (9 + length ''__typename'') ?s = '' = '' @ squote # n @ [squote] @ '';''" by simp
  have "runStatement val ?s obj = Some (obj(''__typename'' \<mapsto> StringValue n))"
    unfolding runStatement_def Let_def f r
    using stringLiteral_quoted [OF assms]
    by (simp add: squote_def butlast_append)
  then show ?thesis
    by (simp add: includeTypenameMethod_def runStatement_def)
qed

section \<open>The setter of a field\<close>

lemma setter_at_field:
  assumes "generateBuilderFunc d = Inr \<lparr> warnings = w, returned = Some (bf, cls) \<rparr>"
    and "i < length (settableFields d)"
    and "valueDeclarationType (settableFields d ! i) = Some type"
  shows "methods cls ! i =
           setterMethod (getName d @ ''Builder'') (symbolName (settableFields d ! i)) type"
  using generated_methods [OF assms(1)] assms(2,3) by (simp add: nth_append)

lemma field_has_type:
  assumes "generateBuilderFunc d = Inr \<lparr> warnings = w, returned = Some (bf, cls) \<rparr>"
    and "i < length (settableFields d)"
  shows "\<exists>type. valueDeclarationType (settableFields d ! i) = Some type"
proof -
  from assms(1) obtain r where
    r: "setterLoop (getName d @ ''Builder'') (getProperties (getType d)) [] = Inr r"
    by (auto simp: generateBuilderFunc_def Let_def split: if_splits sum.splits)
  from assms(2) have "settableFields d ! i \<in> set (settableFields d)" by simp
  then have "settableFields d ! i \<in> set (getProperties (getType d))"
    and "symbolName (settableFields d ! i) \<noteq> ''__typename''"
    by (simp_all add: settableFields_def)
  with setterLoop_declared [OF r] show ?thesis by auto
qed

lemma join_separatedByBar: "join '' | '' alts = separatedByBar alts"
proof -
  have j: "join '' | '' (a # rest) = a @ concat (map (\<lambda>b. '' | '' @ b) rest)" for a rest
    by (induction rest arbitrary: a) simp_all
  show ?thesis
  proof (cases alts)
    case Nil
    then show ?thesis by (simp add: separatedByBar_def)
  next
    case (Cons a rest)
    then show ?thesis by (simp only: j separatedByBar_def list.case)
  qed
qed

lemma parameterAlternatives_alternativeOf:
  "parameterAlternatives ts = concat (map (\<lambda>t. alternativeOf (builderParameterTypeMapper t)) ts)"
  by (induction ts) (simp_all add: parameterAlternatives_def alternativeOf_def)

lemma accepted_type_of_field:
  assumes "generateBuilderFunc d = Inr \<lparr> warnings = w, returned = Some (bf, cls) \<rparr>"
    and "i < length (settableFields d)"
    and "valueDeclarationType (settableFields d ! i) = Some type"
  shows "methodTypeParameters (methods cls ! i) =
           [''P extends '' @
            separatedByBar
              (concat (map (\<lambda>t. alternativeOf (builderParameterTypeMapper t)) (unionTypes type)))]"
  by (simp add: setter_at_field [OF assms] setterMethod_def parametersType_def
      join_separatedByBar parameterAlternatives_alternativeOf)

lemma separatedByBar_single: "separatedByBar [a] = a"
  by (simp add: separatedByBar_def)

lemma accepted_type_single:
  assumes "generateBuilderFunc d = Inr \<lparr> warnings = w, returned = Some (bf, cls) \<rparr>"
    and "i < length (settableFields d)"
    and "valueDeclarationType (settableFields d ! i) = Some type"
    and "\<not> isUnion type"
  shows "methodTypeParameters (methods cls ! i) =
           [''P extends '' @ separatedByBar (alternativeOf (builderParameterTypeMapper type))]"
  using accepted_type_of_field [OF assms(1,2,3)] assms(4) by (simp add: unionTypes_def)

lemma mapper_not_array:
  "getArrayElementType t = None \<Longrightarrow> builderParameterTypeMapper t = bareOrWrapped t"
  by (simp add: builderParameterTypeMapper_def isArray_def isPrimitive_iff bareOrWrapped_def
      primitiveByPredicates_def)

lemma mapper_array:
  "getArrayElementType t = Some e \<Longrightarrow> builderParameterTypeMapper t = bareOrWrapped e @ ''[]''"
  by (simp add: builderParameterTypeMapper_def isArray_def isPrimitive_iff bareOrWrapped_def
      primitiveByPredicates_def)

lemma array_marker_not_literal: "r @ ''[]'' \<noteq> ''true''" "r @ ''[]'' \<noteq> ''false''"
proof -
  have "last (r @ ''[]'') = CHR '']''" by simp
  then show "r @ ''[]'' \<noteq> ''true''" "r @ ''[]'' \<noteq> ''false''" by auto
qed

lemma wrapped_not_literal:
  "''DeepPartial<'' @ r \<noteq> ''true''" "''DeepPartial<'' @ r \<noteq> ''false''"
  by simp_all

lemma orderDecl_generated:
  "generateBuilderFunc orderDecl =
     Inr \<lparr> warnings = [], returned = Some (builderFuncOf ''Order'', orderClass) \<rparr>"
  by (simp add: generateBuilderFunc_def orderDecl_def orderClass_def orderFields_def Let_def)

lemma orderDecl_fields:
  "settableFields orderDecl = map (\<lambda>(n, t). Symbol n (Some t)) orderFields"
  by (simp add: settableFields_def orderDecl_def orderFields_def)

lemma orderDecl_name: "getName orderDecl = ''Order''"
  by (simp add: orderDecl_def)

lemma alternativeOf_other:
  "r \<noteq> ''true'' \<Longrightarrow> r \<noteq> ''false'' \<Longrightarrow> alternativeOf r = [r]"
  by (simp add: alternativeOf_def)

lemma orderClass_accepted:
  "k < length orderFields \<Longrightarrow>
   methodTypeParameters (methods orderClass ! k) =
     [''P extends '' @ parametersType (snd (orderFields ! k))]"
  by (simp add: orderClass_def classObjOf_def nth_append setterMethod_def split_def)

section \<open>Skip conditions\<close>

text \<open>
  C1, as the code has it. \<open>generateBuilderFunc\<close> returns \<open>{}\<close> exactly when the root type
  has no property or is a union. With no property it writes no warning, whether or not
  the root type is a union, because that test comes first. A union root type with at
  least one property gives \<open>{}\<close> and exactly one warning, which carries the
  declaration's name.
\<close>

theorem skip_conditions:
  "((\<exists>w. generateBuilderFunc d = Inr \<lparr> warnings = w, returned = None \<rparr>) \<longleftrightarrow>
      (getProperties (getType d) = [] \<or> isUnion (getType d))) \<and>
   (getProperties (getType d) = [] \<longrightarrow>
      generateBuilderFunc d = Inr \<lparr> warnings = [], returned = None \<rparr>) \<and>
   (getProperties (getType d) \<noteq> [] \<and> isUnion (getType d) \<longrightarrow>
      generateBuilderFunc d =
        Inr \<lparr> warnings = [''Skipped type generation for union: '' @ getName d],
              returned = None \<rparr>)"
proof (intro conjI impI)
  show "getProperties (getType d) = [] \<Longrightarrow>
      generateBuilderFunc d = Inr \<lparr> warnings = [], returned = None \<rparr>"
    by (simp add: generateBuilderFunc_def)
  show "getProperties (getType d) \<noteq> [] \<and> isUnion (getType d) \<Longrightarrow>
      generateBuilderFunc d =
        Inr \<lparr> warnings = [''Skipped type generation for union: '' @ getName d],
              returned = None \<rparr>"
    by (simp add: generateBuilderFunc_def)
  show "(\<exists>w. generateBuilderFunc d = Inr \<lparr> warnings = w, returned = None \<rparr>) \<longleftrightarrow>
      (getProperties (getType d) = [] \<or> isUnion (getType d))"
    by (auto simp: generateBuilderFunc_def Let_def split: sum.splits)
qed

theorem skip_conditions_witness:
  "getProperties (getType petDecl) \<noteq> [] \<and> isUnion (getType petDecl) \<and>
   generateBuilderFunc petDecl =
     Inr \<lparr> warnings = [''Skipped type generation for union: Pet''], returned = None \<rparr> \<and>
   getProperties (getType shapeDecl) = [] \<and>
   generateBuilderFunc shapeDecl = Inr \<lparr> warnings = [], returned = None \<rparr>"
  using skip_conditions [of petDecl] skip_conditions [of shapeDecl]
  by (simp add: petDecl_def shapeDecl_def)

text \<open>
  C1 as stated fails at \<open>Shape\<close>: its root type is a union, and no warning is written.
\<close>

theorem union_root_without_fields_counterexample:
  "isUnion (getType shapeDecl) \<and>
   generateBuilderFunc shapeDecl = Inr \<lparr> warnings = [], returned = None \<rparr>"
  by (simp add: shapeDecl_def generateBuilderFunc_def)

section \<open>The methods of a generated class\<close>

text \<open>
  C3. When \<open>generateBuilderFunc\<close> returns a class for a declaration with \<open>N\<close> fields
  other than the tag, the class has \<open>N + 2\<close> methods. The \<open>i\<close>-th method is the setter
  of the \<open>i\<close>-th such field: a public method that takes \<open>val: P\<close>, assigns it to that
  field of \<open>this.obj\<close> and returns the builder; it is named \<open>with\<close> and the capitalised
  field name (stated for field names that begin with an ASCII character). After the
  setters come the tag-injection method \<open>includeTypename\<close> and then the terminal accessor
  \<open>get\<close>, which returns \<open>this.obj\<close> cast to the declared shape.
\<close>

theorem setters_then_fixed_methods:
  assumes "generateBuilderFunc d = Inr \<lparr> warnings = w, returned = Some (bf, cls) \<rparr>"
  shows "length (methods cls) = length (settableFields d) + 2 \<and>
         (\<forall>i < length (settableFields d).
            methodKind (methods cls ! i) = Method \<and>
            methodScope (methods cls ! i) = Public \<and>
            methodReturnType (methods cls ! i) = Some (getName d @ ''Builder'') \<and>
            methodParameters (methods cls ! i) =
              [\<lparr> parameterName = ''val'', parameterType = Some ''P'', hasQuestionToken = None,
                 initializer = None, isReadonly = None, parameterScope = None \<rparr>] \<and>
            methodStatements (methods cls ! i) =
              [''this.obj.'' @ symbolName (settableFields d ! i) @ '' = val;'',
               ''return this;''] \<and>
            (asciiInitial (symbolName (settableFields d ! i)) \<longrightarrow>
               methodName (methods cls ! i) =
                 ''with'' @ capitalizeFirstLetter (symbolName (settableFields d ! i)))) \<and>
         methods cls ! length (settableFields d) =
           \<lparr> methodKind = Method, methodName = ''includeTypename'', methodReturnType = None,
             methodTypeParameters = [], methodParameters = [], methodScope = Public,
             methodStatements =
               [''// @ts-ignore'',
                ''this.obj.__typename = '' @ [squote] @ getName d @ [squote] @ '';'',
                ''return this;''] \<rparr> \<and>
         methods cls ! (length (settableFields d) + 1) =
           \<lparr> methodKind = Method, methodName = ''get'',
             methodReturnType = Some (''SchemaTypes.'' @ getName d),
             methodTypeParameters = [], methodParameters = [], methodScope = Public,
             methodStatements = [''return this.obj as SchemaTypes.'' @ getName d @ '';''] \<rparr>"
proof -
  let ?setters =
    "map (\<lambda>p. setterMethod (getName d @ ''Builder'') (symbolName p)
                 (the (valueDeclarationType p))) (settableFields d)"
  have ms: "methods cls = ?setters @ [includeTypenameMethod (getName d), getMethod (getName d)]"
    using assms by (rule generated_methods)
  have a: "length (methods cls) = length (settableFields d) + 2"
    by (simp add: ms)
  have b: "methods cls ! i = ?setters ! i" if "i < length (settableFields d)" for i
    using that by (simp add: ms nth_append)
  have c: "methods cls ! length (settableFields d) = includeTypenameMethod (getName d)"
    using nth_append_length [of ?setters] by (simp add: ms)
  have d: "methods cls ! (length (settableFields d) + 1) = getMethod (getName d)"
    using nth_append_length_plus [of ?setters _ 1] by (simp add: ms)
  from a b c d show ?thesis
    by (simp add: setterMethod_def includeTypenameMethod_def getMethod_def)
qed

theorem setters_then_fixed_methods_witness:
  "generateBuilderFunc circleDecl =
     Inr \<lparr> warnings = [], returned = Some (builderFuncOf ''Circle'', circleClass) \<rparr> \<and>
   length (methods circleClass) = 4 \<and>
   asciiInitial ''id'' \<and>
   methodName (methods circleClass ! 0) = ''withId'' \<and>
   methodStatements (methods circleClass ! 0) = [''this.obj.id = val;'', ''return this;''] \<and>
   methodStatements (methods circleClass ! 1) = [''this.obj.radius = val;'', ''return this;''] \<and>
   methodName (methods circleClass ! 2) = ''includeTypename'' \<and>
   methodName (methods circleClass ! 3) = ''get'' \<and>
   methodReturnType (methods circleClass ! 3) = Some ''SchemaTypes.Circle'' \<and>
   methodStatements (methods circleClass ! 3) = [''return this.obj as SchemaTypes.Circle;'']"
proof -
  note h = circleDecl_generated
  have n: "getName circleDecl = ''Circle''" by (simp add: circleDecl_def)
  have i: "asciiInitial ''id''" by (simp add: asciiInitial_def)
  from setters_then_fixed_methods [OF h] show ?thesis
    by (simp add: h n i circleDecl_fields toUpperCase_def asciiInitial_def All_less_Suc2
        numeral_2_eq_2 numeral_3_eq_3)
qed

section \<open>The accepted type of a setter\<close>

text \<open>
  C4, as the code has it. The type parameter of a field's setter is \<open>P extends\<close>
  followed by the accepted type: the alternatives of the constituents of the field's
  type, in order, with \<open> | \<close> between them. A constituent mapped to the text \<open>true\<close>
  gives the alternative \<open>boolean\<close>; a constituent mapped to the text \<open>false\<close> gives no
  alternative (it is left out, not widened); any other constituent gives its mapped text.
  Neither \<open>true\<close> nor \<open>false\<close> is ever an alternative.
\<close>

theorem true_widened_false_dropped:
  assumes "generateBuilderFunc d = Inr \<lparr> warnings = w, returned = Some (bf, cls) \<rparr>"
    and "i < length (settableFields d)"
    and "valueDeclarationType (settableFields d ! i) = Some type"
  shows "methodTypeParameters (methods cls ! i) =
           [''P extends '' @
            separatedByBar
              (concat (map (\<lambda>t. alternativeOf (builderParameterTypeMapper t))
                         (unionTypes type)))] \<and>
         ''true'' \<notin> set (concat (map (\<lambda>t. alternativeOf (builderParameterTypeMapper t))
                                  (unionTypes type))) \<and>
         ''false'' \<notin> set (concat (map (\<lambda>t. alternativeOf (builderParameterTypeMapper t))
                                   (unionTypes type)))"
proof (intro conjI)
  show "methodTypeParameters (methods cls ! i) =
           [''P extends '' @
            separatedByBar
              (concat (map (\<lambda>t. alternativeOf (builderParameterTypeMapper t))
                         (unionTypes type)))]"
    using assms by (rule accepted_type_of_field)
  show "''true'' \<notin> set (concat (map (\<lambda>t. alternativeOf (builderParameterTypeMapper t))
                                  (unionTypes type)))"
    by (auto simp: alternativeOf_def split: if_splits)
  show "''false'' \<notin> set (concat (map (\<lambda>t. alternativeOf (builderParameterTypeMapper t))
                                   (unionTypes type)))"
    by (auto simp: alternativeOf_def split: if_splits)
qed

theorem true_widened_false_dropped_witness:
  "generateBuilderFunc orderDecl =
     Inr \<lparr> warnings = [], returned = Some (builderFuncOf ''Order'', orderClass) \<rparr> \<and>
   4 < length (settableFields orderDecl) \<and>
   settableFields orderDecl ! 4 = Symbol ''paid'' (Some tBoolean) \<and>
   unionTypes tBoolean = [tFalse, tTrue] \<and>
   builderParameterTypeMapper tFalse = ''false'' \<and>
   builderParameterTypeMapper tTrue = ''true'' \<and>
   methodTypeParameters (methods orderClass ! 4) = [''P extends boolean'']"
proof -
  have f: "settableFields orderDecl ! 4 = Symbol ''paid'' (Some tBoolean)"
    "4 < length (settableFields orderDecl)"
    by (simp_all add: orderDecl_fields orderFields_def)
  have u: "unionTypes tBoolean = [tFalse, tTrue]"
    by (simp add: unionTypes_def tBoolean_def)
  from f have v: "valueDeclarationType (settableFields orderDecl ! 4) = Some tBoolean" by simp
  from true_widened_false_dropped [OF orderDecl_generated f(2) v]
  have "methodTypeParameters (methods orderClass ! 4) = [''P extends boolean'']"
    by (simp add: u mapper_tFalse mapper_tTrue alternativeOf_def separatedByBar_def)
  with orderDecl_generated f u mapper_tFalse mapper_tTrue show ?thesis
    by (intro conjI)
qed

text \<open>
  C4 as stated fails for the field \<open>note: string | false\<close>: the constituent \<open>false\<close> is
  mapped to the text \<open>false\<close>, and the accepted type of the setter is \<open>string\<close>, with no
  \<open>boolean\<close> in it.
\<close>

theorem false_constituent_not_widened_counterexample:
  "unionTypes tStringOrFalse = [tString, tFalse] \<and>
   builderParameterTypeMapper tFalse = ''false'' \<and>
   parametersType tStringOrFalse = ''string'' \<and>
   generateBuilderFunc orderDecl =
     Inr \<lparr> warnings = [], returned = Some (builderFuncOf ''Order'', orderClass) \<rparr> \<and>
   settableFields orderDecl ! 6 = Symbol ''note'' (Some tStringOrFalse) \<and>
   methodTypeParameters (methods orderClass ! 6) = [''P extends string'']"
proof -
  have p: "parametersType tStringOrFalse = ''string''"
    "unionTypes tStringOrFalse = [tString, tFalse]"
    by (simp_all add: parametersType_def parameterAlternatives_def unionTypes_def
        tStringOrFalse_def mapper_tString mapper_tFalse)
  have f: "settableFields orderDecl ! 6 = Symbol ''note'' (Some tStringOrFalse)"
    by (simp add: orderDecl_fields orderFields_def)
  have "methodTypeParameters (methods orderClass ! 6) =
          [''P extends '' @ parametersType (snd (orderFields ! 6))]"
    by (rule orderClass_accepted) (simp add: orderFields_def)
  then have m: "methodTypeParameters (methods orderClass ! 6) = [''P extends string'']"
    by (simp add: orderFields_def p)
  from p(2) mapper_tFalse p(1) orderDecl_generated f m show ?thesis
    by (intro conjI)
qed

text \<open>
  C5. A field whose type is the union of the literal types \<open>true\<close> and \<open>false\<close>, in
  either order, has a setter whose type parameter is \<open>P extends boolean\<close>: the accepted
  type is \<open>boolean\<close>, once, with no \<open>false\<close> beside it.
\<close>

theorem boolean_union_collapses:
  assumes "generateBuilderFunc d = Inr \<lparr> warnings = w, returned = Some (bf, cls) \<rparr>"
    and "i < length (settableFields d)"
    and "valueDeclarationType (settableFields d ! i) = Some type"
    and "isUnion type"
    and "getUnionTypes type = [a, b] \<or> getUnionTypes type = [b, a]"
    and "getText a = ''true''" and "isLiteral a" and "getArrayElementType a = None"
    and "getText b = ''false''" and "isLiteral b" and "getArrayElementType b = None"
  shows "methodTypeParameters (methods cls ! i) = [''P extends boolean'']"
proof -
  have a: "builderParameterTypeMapper a = ''true''"
    using assms(6,7,8)
    by (simp add: builderParameterTypeMapper_def isArray_def isPrimitive_iff replaceImports_true)
  have b: "builderParameterTypeMapper b = ''false''"
    using assms(9,10,11)
    by (simp add: builderParameterTypeMapper_def isArray_def isPrimitive_iff replaceImports_false)
  from assms(5)
  have "concat (map (\<lambda>t. alternativeOf (builderParameterTypeMapper t)) (getUnionTypes type)) =
          [''boolean'']"
    by (auto simp: alternativeOf_def a b)
  with accepted_type_of_field [OF assms(1,2,3)] assms(4) show ?thesis
    by (simp add: unionTypes_def separatedByBar_def)
qed

theorem boolean_union_collapses_witness:
  "generateBuilderFunc orderDecl =
     Inr \<lparr> warnings = [], returned = Some (builderFuncOf ''Order'', orderClass) \<rparr> \<and>
   4 < length (settableFields orderDecl) \<and>
   settableFields orderDecl ! 4 = Symbol ''paid'' (Some tBoolean) \<and>
   isUnion tBoolean \<and> getUnionTypes tBoolean = [tFalse, tTrue] \<and>
   getText tTrue = ''true'' \<and> isLiteral tTrue \<and> getArrayElementType tTrue = None \<and>
   getText tFalse = ''false'' \<and> isLiteral tFalse \<and> getArrayElementType tFalse = None \<and>
   methodTypeParameters (methods orderClass ! 4) = [''P extends boolean'']"
proof -
  have f: "settableFields orderDecl ! 4 = Symbol ''paid'' (Some tBoolean)"
    "4 < length (settableFields orderDecl)"
    by (simp_all add: orderDecl_fields orderFields_def)
  from f have v: "valueDeclarationType (settableFields orderDecl ! 4) = Some tBoolean" by simp
  have h: "isUnion tBoolean"
    "getUnionTypes tBoolean = [tTrue, tFalse] \<or> getUnionTypes tBoolean = [tFalse, tTrue]"
    "getText tTrue = ''true''" "isLiteral tTrue" "getArrayElementType tTrue = None"
    "getText tFalse = ''false''" "isLiteral tFalse" "getArrayElementType tFalse = None"
    by (simp_all add: tBoolean_def tTrue_def tFalse_def isLiteral_def noFlags_def)
  have g: "getUnionTypes tBoolean = [tFalse, tTrue]" by (simp add: tBoolean_def)
  note t = boolean_union_collapses [OF orderDecl_generated f(2) v h]
  from orderDecl_generated f h(1) g h(3-8) t show ?thesis
    by (intro conjI)
qed

text \<open>
  C10. When every constituent of a field's type is mapped to the text \<open>false\<close>, the
  accepted type is the empty string, and the field's setter is still in the class: the
  method at the field's position assigns to that field, and its type parameter is
  \<open>P extends \<close> followed by nothing.
\<close>

theorem all_false_constituents_empty_type:
  assumes "generateBuilderFunc d = Inr \<lparr> warnings = w, returned = Some (bf, cls) \<rparr>"
    and "i < length (settableFields d)"
    and "valueDeclarationType (settableFields d ! i) = Some type"
    and "\<forall>t \<in> set (unionTypes type). builderParameterTypeMapper t = ''false''"
  shows "parametersType type = [] \<and>
         methodStatements (methods cls ! i) =
           [''this.obj.'' @ symbolName (settableFields d ! i) @ '' = val;'', ''return this;''] \<and>
         methodTypeParameters (methods cls ! i) = [''P extends '']"
proof -
  have "filter (\<lambda>t. t \<noteq> ''false'') (map builderParameterTypeMapper (unionTypes type)) = []"
    using assms(4) by (simp add: filter_empty_conv)
  then have p: "parametersType type = []"
    by (simp add: parametersType_def parameterAlternatives_def)
  have "methods cls ! i =
          setterMethod (getName d @ ''Builder'') (symbolName (settableFields d ! i)) type"
    using assms(1,2,3) by (rule setter_at_field)
  with p show ?thesis by (simp add: setterMethod_def)
qed

theorem all_false_constituents_empty_type_witness:
  "generateBuilderFunc switchDecl =
     Inr \<lparr> warnings = [], returned = Some (builderFuncOf ''Switch'', switchClass) \<rparr> \<and>
   1 < length (settableFields switchDecl) \<and>
   settableFields switchDecl ! 1 = Symbol ''disabled'' (Some tFalse) \<and>
   unionTypes tFalse = [tFalse] \<and>
   builderParameterTypeMapper tFalse = ''false'' \<and>
   parametersType tFalse = [] \<and>
   methodStatements (methods switchClass ! 1) = [''this.obj.disabled = val;'', ''return this;''] \<and>
   methodTypeParameters (methods switchClass ! 1) = [''P extends '']"
proof -
  have f: "settableFields switchDecl =
             [Symbol ''label'' (Some tString), Symbol ''disabled'' (Some tFalse)]"
    by (simp add: settableFields_def switchDecl_def)
  have u: "unionTypes tFalse = [tFalse]"
    by (simp add: unionTypes_def tFalse_def)
  have a: "\<forall>t \<in> set (unionTypes tFalse). builderParameterTypeMapper t = ''false''"
    by (simp add: u mapper_tFalse)
  from all_false_constituents_empty_type [OF switchDecl_generated, of 1 tFalse] f a
  show ?thesis
    by (simp add: switchDecl_generated u mapper_tFalse)
qed

section \<open>The order of extraction\<close>

text \<open>
  C8. The two loops of \<open>generateBuilders\<close> visit the declarations in the order of the
  extractor: all type aliases in file order, then all interfaces in file order,
  wherever they stand in the file. A source file with no statement gives the empty
  sequence, and the loops end with nothing collected and no error.
\<close>

theorem aliases_then_interfaces:
  "getTypeAliases sourceFile @ getInterfaces sourceFile = extractDeclarations sourceFile \<and>
   collectBuilders sourceFile = declarationLoop (extractDeclarations sourceFile) emptyCollected \<and>
   extractDeclarations [] = [] \<and>
   collectBuilders [] = Inr emptyCollected"
proof (intro conjI)
  show e: "getTypeAliases sourceFile @ getInterfaces sourceFile = extractDeclarations sourceFile"
    by (simp add: extractDeclarations_def getTypeAliases_filter getInterfaces_filter)
  show "collectBuilders sourceFile = declarationLoop (extractDeclarations sourceFile) emptyCollected"
    unfolding e [symmetric] by (simp add: collectBuilders_def declarationLoop_append)
  show "extractDeclarations [] = []" by (simp add: extractDeclarations_def)
  show "collectBuilders [] = Inr emptyCollected"
    by (simp add: collectBuilders_def getTypeAliases_def getInterfaces_def)
qed

theorem aliases_then_interfaces_witness:
  "extractDeclarations exampleFile = [shapeDecl, petDecl, circleDecl, switchDecl] \<and>
   collectBuilders exampleFile =
     Inr \<lparr> console = [''Skipped type generation for union: Pet''],
           classesAndFactories =
             [(circleClass, builderFuncOf ''Circle''), (switchClass, builderFuncOf ''Switch'')] \<rparr>"
proof -
  have e: "extractDeclarations exampleFile = [shapeDecl, petDecl, circleDecl, switchDecl]"
    by (simp add: extractDeclarations_def exampleFile_def circleDecl_def shapeDecl_def switchDecl_def petDecl_def)
  have s: "generateBuilderFunc shapeDecl = Inr \<lparr> warnings = [], returned = None \<rparr>"
    by (simp add: shapeDecl_def generateBuilderFunc_def)
  have p: "generateBuilderFunc petDecl =
     Inr \<lparr> warnings = [''Skipped type generation for union: Pet''], returned = None \<rparr>"
    by (simp add: petDecl_def generateBuilderFunc_def)
  from aliases_then_interfaces [of exampleFile] show ?thesis
    by (simp add: e s p circleDecl_generated switchDecl_generated pushGenerated_def emptyCollected_def)
qed

section \<open>The type mapper\<close>

text \<open>
  C7. A constituent that is an array type is mapped to the rendering of its element
  type followed by \<open>[]\<close>. The element type is rendered from its own text and its own
  predicates, bare when it is primitive and inside \<open>DeepPartial<...>\<close> when it is not,
  also when it is an array itself (one descent). In the type parameter of the field's
  setter this text is the constituent's alternative, and for a field whose type is the
  array alone the type parameter is \<open>P extends\<close> followed by it.
\<close>

theorem array_descends_once:
  assumes "generateBuilderFunc d = Inr \<lparr> warnings = w, returned = Some (bf, cls) \<rparr>"
    and "i < length (settableFields d)"
    and "valueDeclarationType (settableFields d ! i) = Some type"
  shows "methodTypeParameters (methods cls ! i) =
           [''P extends '' @
            separatedByBar
              (concat (map (\<lambda>t. alternativeOf (builderParameterTypeMapper t))
                         (unionTypes type)))] \<and>
         (\<forall>t \<in> set (unionTypes type). \<forall>e. getArrayElementType t = Some e \<longrightarrow>
            builderParameterTypeMapper t = bareOrWrapped e @ ''[]'' \<and>
            alternativeOf (builderParameterTypeMapper t) = [bareOrWrapped e @ ''[]'']) \<and>
         (\<forall>e. \<not> isUnion type \<and> getArrayElementType type = Some e \<longrightarrow>
            methodTypeParameters (methods cls ! i) =
              [''P extends '' @ bareOrWrapped e @ ''[]''])"
proof (intro conjI ballI allI impI)
  show "methodTypeParameters (methods cls ! i) =
           [''P extends '' @
            separatedByBar
              (concat (map (\<lambda>t. alternativeOf (builderParameterTypeMapper t))
                         (unionTypes type)))]"
    using assms by (rule accepted_type_of_field)
next
  fix t e assume "getArrayElementType t = Some e"
  then have m: "builderParameterTypeMapper t = bareOrWrapped e @ ''[]''"
    by (rule mapper_array)
  then show "builderParameterTypeMapper t = bareOrWrapped e @ ''[]''" .
  from m show "alternativeOf (builderParameterTypeMapper t) = [bareOrWrapped e @ ''[]'']"
    by (simp only: alternativeOf_other [OF array_marker_not_literal])
next
  fix e assume h: "\<not> isUnion type \<and> getArrayElementType type = Some e"
  then have m: "builderParameterTypeMapper type = bareOrWrapped e @ ''[]''"
    by (intro mapper_array) simp
  from h have nu: "\<not> isUnion type" by simp
  from accepted_type_single [OF assms nu]
  have "methodTypeParameters (methods cls ! i) =
          [''P extends '' @ separatedByBar (alternativeOf (bareOrWrapped e @ ''[]''))]"
    by (simp only: m)
  then show "methodTypeParameters (methods cls ! i) =
               [''P extends '' @ bareOrWrapped e @ ''[]'']"
    by (simp only: alternativeOf_other [OF array_marker_not_literal] separatedByBar_single)
qed

theorem array_descends_once_witness:
  "generateBuilderFunc orderDecl =
     Inr \<lparr> warnings = [], returned = Some (builderFuncOf ''Order'', orderClass) \<rparr> \<and>
   2 < length (settableFields orderDecl) \<and> 3 < length (settableFields orderDecl) \<and>
   9 < length (settableFields orderDecl) \<and>
   settableFields orderDecl ! 2 = Symbol ''tags'' (Some tStringArray) \<and>
   \<not> isUnion tStringArray \<and> getArrayElementType tStringArray = Some tString \<and>
   methodTypeParameters (methods orderClass ! 2) = [''P extends string[]''] \<and>
   settableFields orderDecl ! 3 = Symbol ''items'' (Some tFooArray) \<and>
   \<not> isUnion tFooArray \<and> getArrayElementType tFooArray = Some tFoo \<and>
   methodTypeParameters (methods orderClass ! 3) =
     [''P extends DeepPartial<SchemaTypes.Foo>[]''] \<and>
   settableFields orderDecl ! 9 = Symbol ''grid'' (Some tStringMatrix) \<and>
   \<not> isUnion tStringMatrix \<and> getArrayElementType tStringMatrix = Some tStringArray \<and>
   methodTypeParameters (methods orderClass ! 9) = [''P extends DeepPartial<string[]>[]'']"
proof -
  have f: "settableFields orderDecl ! 2 = Symbol ''tags'' (Some tStringArray)"
    "settableFields orderDecl ! 3 = Symbol ''items'' (Some tFooArray)"
    "settableFields orderDecl ! 9 = Symbol ''grid'' (Some tStringMatrix)"
    and l: "2 < length (settableFields orderDecl)" "3 < length (settableFields orderDecl)"
    "9 < length (settableFields orderDecl)"
    by (simp_all add: orderDecl_fields orderFields_def)
  from f have v: "valueDeclarationType (settableFields orderDecl ! 2) = Some tStringArray"
    "valueDeclarationType (settableFields orderDecl ! 3) = Some tFooArray"
    "valueDeclarationType (settableFields orderDecl ! 9) = Some tStringMatrix"
    by simp_all
  have u: "\<not> isUnion tStringArray" "\<not> isUnion tFooArray" "\<not> isUnion tStringMatrix"
    and a: "getArrayElementType tStringArray = Some tString"
    "getArrayElementType tFooArray = Some tFoo"
    "getArrayElementType tStringMatrix = Some tStringArray"
    by (simp_all add: tStringArray_def tFooArray_def tStringMatrix_def)
  have r: "bareOrWrapped tString = ''string''"
    "bareOrWrapped tFoo = ''DeepPartial<SchemaTypes.Foo>''"
    "bareOrWrapped tStringArray = ''DeepPartial<string[]>''"
    by (simp_all add: bareOrWrapped_def primitiveByPredicates_def tString_def tFoo_def
        tStringArray_def flag_defs noFlags_def replaceImports_short replaceImports_schema_Foo
        replaceImports.simps matchImport_def isImportHead_def importHead_def dquote_def
        toUpperCase_def)
  from array_descends_once [OF orderDecl_generated l(1) v(1)]
  have "\<forall>e. \<not> isUnion tStringArray \<and> getArrayElementType tStringArray = Some e \<longrightarrow>
          methodTypeParameters (methods orderClass ! 2) =
            [''P extends '' @ bareOrWrapped e @ ''[]'']"
    by (elim conjE)
  with u(1) a(1) have "methodTypeParameters (methods orderClass ! 2) =
                       [''P extends '' @ bareOrWrapped tString @ ''[]'']"
    by blast
  then have m2: "methodTypeParameters (methods orderClass ! 2) = [''P extends string[]'']"
    by (simp add: r)
  from array_descends_once [OF orderDecl_generated l(2) v(2)]
  have "\<forall>e. \<not> isUnion tFooArray \<and> getArrayElementType tFooArray = Some e \<longrightarrow>
          methodTypeParameters (methods orderClass ! 3) =
            [''P extends '' @ bareOrWrapped e @ ''[]'']"
    by (elim conjE)
  with u(2) a(2) have "methodTypeParameters (methods orderClass ! 3) =
                       [''P extends '' @ bareOrWrapped tFoo @ ''[]'']"
    by blast
  then have m3: "methodTypeParameters (methods orderClass ! 3) =
              [''P extends DeepPartial<SchemaTypes.Foo>[]'']"
    by (simp add: r)
  from array_descends_once [OF orderDecl_generated l(3) v(3)]
  have "\<forall>e. \<not> isUnion tStringMatrix \<and> getArrayElementType tStringMatrix = Some e \<longrightarrow>
          methodTypeParameters (methods orderClass ! 9) =
            [''P extends '' @ bareOrWrapped e @ ''[]'']"
    by (elim conjE)
  with u(3) a(3) have "methodTypeParameters (methods orderClass ! 9) =
                       [''P extends '' @ bareOrWrapped tStringArray @ ''[]'']"
    by blast
  then have m9: "methodTypeParameters (methods orderClass ! 9) =
              [''P extends DeepPartial<string[]>[]'']"
    by (simp add: r)
  from orderDecl_generated l f u a m2 m3 m9 show ?thesis
    by (intro conjI)
qed

text \<open>
  C6, as the code has it. A constituent that is not an array is mapped to its text after
  the replacement, bare when it is primitive and inside \<open>DeepPartial<...>\<close> when it is
  not. On a text whose module-qualified references are known, the replacement puts
  \<open>SchemaTypes\<close> in place of every one of them and changes nothing else. In the type
  parameter of the field's setter this rendering is the constituent's alternative,
  unless it is the text \<open>true\<close>, which gives \<open>boolean\<close>, or the text \<open>false\<close>, which
  gives no alternative; for a field whose type is that constituent alone, with a
  rendering other than these two, the type parameter is \<open>P extends\<close> followed by the
  rendering.
\<close>

theorem non_array_rendering:
  assumes "generateBuilderFunc d = Inr \<lparr> warnings = w, returned = Some (bf, cls) \<rparr>"
    and "i < length (settableFields d)"
    and "valueDeclarationType (settableFields d ! i) = Some type"
  shows "methodTypeParameters (methods cls ! i) =
           [''P extends '' @
            separatedByBar
              (concat (map (\<lambda>t. alternativeOf (builderParameterTypeMapper t))
                         (unionTypes type)))] \<and>
         (\<forall>t \<in> set (unionTypes type). getArrayElementType t = None \<longrightarrow>
            builderParameterTypeMapper t = bareOrWrapped t \<and>
            (bareOrWrapped t \<noteq> ''true'' \<and> bareOrWrapped t \<noteq> ''false'' \<longrightarrow>
               alternativeOf (builderParameterTypeMapper t) = [bareOrWrapped t]) \<and>
            (bareOrWrapped t = ''true'' \<longrightarrow>
               alternativeOf (builderParameterTypeMapper t) = [''boolean'']) \<and>
            (bareOrWrapped t = ''false'' \<longrightarrow>
               alternativeOf (builderParameterTypeMapper t) = [])) \<and>
         (\<not> isUnion type \<and> getArrayElementType type = None \<and>
          bareOrWrapped type \<noteq> ''true'' \<and> bareOrWrapped type \<noteq> ''false'' \<longrightarrow>
            methodTypeParameters (methods cls ! i) = [''P extends '' @ bareOrWrapped type]) \<and>
         (wellFormedSegments segs \<and> noImportHead tail \<longrightarrow>
            replaceImports (qualifiedText segs tail) = aliasedText segs tail)"
proof (intro conjI ballI impI)
  show "methodTypeParameters (methods cls ! i) =
           [''P extends '' @
            separatedByBar
              (concat (map (\<lambda>t. alternativeOf (builderParameterTypeMapper t))
                         (unionTypes type)))]"
    using assms by (rule accepted_type_of_field)
next
  fix t assume "getArrayElementType t = None"
  then show m: "builderParameterTypeMapper t = bareOrWrapped t"
    by (rule mapper_not_array)
  show "alternativeOf (builderParameterTypeMapper t) = [bareOrWrapped t]"
    if "bareOrWrapped t \<noteq> ''true'' \<and> bareOrWrapped t \<noteq> ''false''"
    using that by (simp add: m alternativeOf_def)
  show "alternativeOf (builderParameterTypeMapper t) = [''boolean'']"
    if "bareOrWrapped t = ''true''"
    using that by (simp add: m alternativeOf_def)
  show "alternativeOf (builderParameterTypeMapper t) = []"
    if "bareOrWrapped t = ''false''"
    using that by (simp add: m alternativeOf_def)
next
  assume h: "\<not> isUnion type \<and> getArrayElementType type = None \<and>
          bareOrWrapped type \<noteq> ''true'' \<and> bareOrWrapped type \<noteq> ''false''"
  then have m: "builderParameterTypeMapper type = bareOrWrapped type"
    by (intro mapper_not_array) simp
  from h accepted_type_single [OF assms]
  show "methodTypeParameters (methods cls ! i) = [''P extends '' @ bareOrWrapped type]"
    by (simp add: m alternativeOf_def separatedByBar_def)
next
  assume "wellFormedSegments segs \<and> noImportHead tail"
  then show "replaceImports (qualifiedText segs tail) = aliasedText segs tail"
    by (simp add: replaceImports_segments)
qed

theorem non_array_rendering_witness:
  "generateBuilderFunc orderDecl =
     Inr \<lparr> warnings = [], returned = Some (builderFuncOf ''Order'', orderClass) \<rparr> \<and>
   8 < length (settableFields orderDecl) \<and> 7 < length (settableFields orderDecl) \<and>
   settableFields orderDecl ! 8 = Symbol ''wrapped'' (Some tMaybeFoo) \<and>
   \<not> isUnion tMaybeFoo \<and> getArrayElementType tMaybeFoo = None \<and>
   \<not> primitiveByPredicates tMaybeFoo \<and>
   getText tMaybeFoo =
     qualifiedText [([], ''/src/schema''), (''.Maybe<'', ''/src/schema'')] ''.Foo>'' \<and>
   wellFormedSegments [([], ''/src/schema''), (''.Maybe<'', ''/src/schema'')] \<and>
   noImportHead ''.Foo>'' \<and>
   methodTypeParameters (methods orderClass ! 8) =
     [''P extends DeepPartial<SchemaTypes.Maybe<SchemaTypes.Foo>>''] \<and>
   settableFields orderDecl ! 7 = Symbol ''kind'' (Some tColor) \<and>
   \<not> isUnion tColor \<and> getArrayElementType tColor = None \<and> primitiveByPredicates tColor \<and>
   getText tColor = qualifiedText [([], ''/src/schema'')] ''.Color'' \<and>
   wellFormedSegments [([], ''/src/schema'')] \<and> noImportHead ''.Color'' \<and>
   methodTypeParameters (methods orderClass ! 7) = [''P extends SchemaTypes.Color'']"
proof -
  have f: "settableFields orderDecl ! 8 = Symbol ''wrapped'' (Some tMaybeFoo)"
    "settableFields orderDecl ! 7 = Symbol ''kind'' (Some tColor)"
    and l: "8 < length (settableFields orderDecl)" "7 < length (settableFields orderDecl)"
    by (simp_all add: orderDecl_fields orderFields_def)
  from f have v: "valueDeclarationType (settableFields orderDecl ! 8) = Some tMaybeFoo"
    "valueDeclarationType (settableFields orderDecl ! 7) = Some tColor"
    by simp_all
  have u: "\<not> isUnion tMaybeFoo" "\<not> isUnion tColor"
    and a: "getArrayElementType tMaybeFoo = None" "getArrayElementType tColor = None"
    and c: "\<not> primitiveByPredicates tMaybeFoo" "primitiveByPredicates tColor"
    by (simp_all add: tMaybeFoo_def tColor_def primitiveByPredicates_def flag_defs noFlags_def)
  have g: "getText tMaybeFoo =
             qualifiedText [([], ''/src/schema''), (''.Maybe<'', ''/src/schema'')] ''.Foo>''"
    "getText tColor = qualifiedText [([], ''/src/schema'')] ''.Color''"
    by (simp_all add: tMaybeFoo_def tColor_def)
  have s: "wellFormedSegments [([], ''/src/schema''), (''.Maybe<'', ''/src/schema'')]"
    "noImportHead ''.Foo>''" "wellFormedSegments [([], ''/src/schema'')]"
    "noImportHead ''.Color''"
    by (simp_all add: dquote_def isImportHead_def importHead_def)
  note t8 = non_array_rendering [OF orderDecl_generated l(1) v(1),
      of "[([], ''/src/schema''), (''.Maybe<'', ''/src/schema'')]" "''.Foo>''"]
  note t7 = non_array_rendering [OF orderDecl_generated l(2) v(2),
      of "[([], ''/src/schema'')]" "''.Color''"]
  from t8 s(1,2)
  have "replaceImports (getText tMaybeFoo) =
          aliasedText [([], ''/src/schema''), (''.Maybe<'', ''/src/schema'')] ''.Foo>''"
    by (simp only: g)
  then have r8: "bareOrWrapped tMaybeFoo = ''DeepPartial<SchemaTypes.Maybe<SchemaTypes.Foo>>''"
    by (simp add: bareOrWrapped_def c)
  from t7 s(3,4)
  have "replaceImports (getText tColor) = aliasedText [([], ''/src/schema'')] ''.Color''"
    by (simp only: g)
  then have r7: "bareOrWrapped tColor = ''SchemaTypes.Color''"
    by (simp add: bareOrWrapped_def c)
  from t8
  have "\<not> isUnion tMaybeFoo \<and> getArrayElementType tMaybeFoo = None \<and>
        bareOrWrapped tMaybeFoo \<noteq> ''true'' \<and> bareOrWrapped tMaybeFoo \<noteq> ''false'' \<longrightarrow>
          methodTypeParameters (methods orderClass ! 8) =
            [''P extends '' @ bareOrWrapped tMaybeFoo]"
    by (elim conjE)
  moreover have "bareOrWrapped tMaybeFoo \<noteq> ''true''" "bareOrWrapped tMaybeFoo \<noteq> ''false''"
    by (simp_all add: r8)
  ultimately have "methodTypeParameters (methods orderClass ! 8) =
                     [''P extends '' @ bareOrWrapped tMaybeFoo]"
    using u(1) a(1) by blast
  then have m8: "methodTypeParameters (methods orderClass ! 8) =
              [''P extends DeepPartial<SchemaTypes.Maybe<SchemaTypes.Foo>>'']"
    by (simp add: r8)
  from t7
  have "\<not> isUnion tColor \<and> getArrayElementType tColor = None \<and>
        bareOrWrapped tColor \<noteq> ''true'' \<and> bareOrWrapped tColor \<noteq> ''false'' \<longrightarrow>
          methodTypeParameters (methods orderClass ! 7) = [''P extends '' @ bareOrWrapped tColor]"
    by (elim conjE)
  moreover have "bareOrWrapped tColor \<noteq> ''true''" "bareOrWrapped tColor \<noteq> ''false''"
    by (simp_all add: r7)
  ultimately have "methodTypeParameters (methods orderClass ! 7) =
                     [''P extends '' @ bareOrWrapped tColor]"
    using u(2) a(2) by blast
  then have m7: "methodTypeParameters (methods orderClass ! 7) = [''P extends SchemaTypes.Color'']"
    by (simp add: r7)
  from orderDecl_generated l f u a c g s m8 m7 show ?thesis
    by (intro conjI)
qed

text \<open>
  C6 as stated fails for the field \<open>enabled: true\<close>: the constituent is not an array and
  is primitive (a literal), its text is \<open>true\<close>, and the accepted type of its setter is
  not that text left bare but \<open>boolean\<close>.
\<close>

theorem literal_true_not_bare_counterexample:
  "generateBuilderFunc orderDecl =
     Inr \<lparr> warnings = [], returned = Some (builderFuncOf ''Order'', orderClass) \<rparr> \<and>
   settableFields orderDecl ! 10 = Symbol ''enabled'' (Some tTrue) \<and>
   \<not> isUnion tTrue \<and> getArrayElementType tTrue = None \<and> isLiteral tTrue \<and>
   getText tTrue = ''true'' \<and>
   builderParameterTypeMapper tTrue = ''true'' \<and>
   methodTypeParameters (methods orderClass ! 10) = [''P extends boolean'']"
proof -
  have f: "settableFields orderDecl ! 10 = Symbol ''enabled'' (Some tTrue)"
    by (simp add: orderDecl_fields orderFields_def)
  have t: "\<not> isUnion tTrue" "getArrayElementType tTrue = None" "isLiteral tTrue"
    "getText tTrue = ''true''"
    by (simp_all add: tTrue_def isLiteral_def noFlags_def)
  have "parametersType tTrue = ''boolean''"
    by (simp add: parametersType_def parameterAlternatives_def unionTypes_def t mapper_tTrue)
  moreover have "methodTypeParameters (methods orderClass ! 10) =
          [''P extends '' @ parametersType (snd (orderFields ! 10))]"
    by (rule orderClass_accepted) (simp add: orderFields_def)
  ultimately have m: "methodTypeParameters (methods orderClass ! 10) = [''P extends boolean'']"
    by (simp add: orderFields_def)
  from orderDecl_generated f t mapper_tTrue m show ?thesis
    by (intro conjI)
qed

section \<open>Failures\<close>

text \<open>
  C2, as the code has it. \<open>generateBuilderFunc\<close> throws exactly when the declaration is
  not skipped and one of its properties other than the tag has no value declaration
  (\<open>getValueDeclarationOrThrow\<close>). A constituent whose classified type (the element type
  of an array, the constituent itself otherwise) satisfies none of the eight predicates
  is treated as composite: the classified type's text, after the replacement, is put
  inside \<open>DeepPartial<...>\<close>, followed by \<open>[]\<close> for an array; it is not used bare. For a
  field whose type is that constituent alone, the type parameter of the setter is
  \<open>P extends\<close> followed by this text.
\<close>

theorem failure_and_fallback:
  "((\<exists>e. generateBuilderFunc d = Inl e) \<longleftrightarrow>
      (getProperties (getType d) \<noteq> [] \<and> \<not> isUnion (getType d) \<and>
       (\<exists>p \<in> set (getProperties (getType d)).
          symbolName p \<noteq> ''__typename'' \<and> valueDeclarationType p = None))) \<and>
   (\<not> primitiveByPredicates (classifiedType t) \<longrightarrow>
      builderParameterTypeMapper t =
        ''DeepPartial<'' @ replaceImports (getText (classifiedType t)) @ ''>'' @
        (if getArrayElementType t = None then [] else ''[]'')) \<and>
   (generateBuilderFunc d' = Inr \<lparr> warnings = w, returned = Some (bf, cls) \<rparr> \<and>
    i < length (settableFields d') \<and>
    valueDeclarationType (settableFields d' ! i) = Some type \<and>
    \<not> isUnion type \<and> \<not> primitiveByPredicates (classifiedType type) \<longrightarrow>
      methodTypeParameters (methods cls ! i) =
        [''P extends DeepPartial<'' @ replaceImports (getText (classifiedType type)) @ ''>'' @
         (if getArrayElementType type = None then [] else ''[]'')])"
proof (intro conjI impI)
  let ?props = "getProperties (getType d)"
  have "(\<exists>e. generateBuilderFunc d = Inl e) \<longleftrightarrow>
        (?props \<noteq> [] \<and> \<not> isUnion (getType d) \<and>
         (\<exists>e. setterLoop (getName d @ ''Builder'') ?props [] = Inl e))"
    by (auto simp: generateBuilderFunc_def Let_def split: sum.splits)
  then show "(\<exists>e. generateBuilderFunc d = Inl e) \<longleftrightarrow>
      (?props \<noteq> [] \<and> \<not> isUnion (getType d) \<and>
       (\<exists>p \<in> set ?props. symbolName p \<noteq> ''__typename'' \<and> valueDeclarationType p = None))"
    by (simp only: setterLoop_throws_iff)
next
  have wrapped: "builderParameterTypeMapper x =
        ''DeepPartial<'' @ replaceImports (getText (classifiedType x)) @ ''>'' @
        (if getArrayElementType x = None then [] else ''[]'')"
    if "\<not> primitiveByPredicates (classifiedType x)" for x
  proof (cases "getArrayElementType x")
    case None
    with that show ?thesis
      by (simp add: mapper_not_array bareOrWrapped_def classifiedType_def)
  next
    case (Some e)
    with that show ?thesis
      by (simp add: mapper_array bareOrWrapped_def classifiedType_def)
  qed
  {
    assume "\<not> primitiveByPredicates (classifiedType t)"
    then show "builderParameterTypeMapper t =
        ''DeepPartial<'' @ replaceImports (getText (classifiedType t)) @ ''>'' @
        (if getArrayElementType t = None then [] else ''[]'')"
      by (rule wrapped)
  next
    assume h: "generateBuilderFunc d' = Inr \<lparr> warnings = w, returned = Some (bf, cls) \<rparr> \<and>
      i < length (settableFields d') \<and>
      valueDeclarationType (settableFields d' ! i) = Some type \<and>
      \<not> isUnion type \<and> \<not> primitiveByPredicates (classifiedType type)"
    then have m: "builderParameterTypeMapper type =
        ''DeepPartial<'' @ (replaceImports (getText (classifiedType type)) @ ''>'' @
        (if getArrayElementType type = None then [] else ''[]''))"
      by (simp add: wrapped)
    from h have g: "generateBuilderFunc d' = Inr \<lparr> warnings = w, returned = Some (bf, cls) \<rparr>"
      and il: "i < length (settableFields d')"
      and v: "valueDeclarationType (settableFields d' ! i) = Some type"
      and nu: "\<not> isUnion type"
      by simp_all
    have "methodTypeParameters (methods cls ! i) =
          [''P extends '' @ separatedByBar (alternativeOf (builderParameterTypeMapper type))]"
      using g il v nu by (rule accepted_type_single)
    then have "methodTypeParameters (methods cls ! i) =
          [''P extends '' @ builderParameterTypeMapper type]"
      by (simp only: m alternativeOf_other [OF wrapped_not_literal] separatedByBar_single)
    then show "methodTypeParameters (methods cls ! i) =
        [''P extends DeepPartial<'' @ replaceImports (getText (classifiedType type)) @ ''>'' @
         (if getArrayElementType type = None then [] else ''[]'')]"
      by (simp add: m)
  }
qed

theorem failure_and_fallback_witness:
  "getProperties (getType limitsDecl) = [Symbol ''min'' None, Symbol ''max'' None] \<and>
   \<not> isUnion (getType limitsDecl) \<and>
   (\<exists>e. generateBuilderFunc limitsDecl = Inl e) \<and>
   generateBuilderFunc orderDecl =
     Inr \<lparr> warnings = [], returned = Some (builderFuncOf ''Order'', orderClass) \<rparr> \<and>
   5 < length (settableFields orderDecl) \<and>
   settableFields orderDecl ! 5 = Symbol ''payload'' (Some tUnknown) \<and>
   \<not> isUnion tUnknown \<and> classifiedType tUnknown = tUnknown \<and>
   \<not> primitiveByPredicates (classifiedType tUnknown) \<and>
   builderParameterTypeMapper tUnknown = ''DeepPartial<unknown>'' \<and>
   methodTypeParameters (methods orderClass ! 5) = [''P extends DeepPartial<unknown>'']"
proof -
  have l: "getProperties (getType limitsDecl) = [Symbol ''min'' None, Symbol ''max'' None]"
    "\<not> isUnion (getType limitsDecl)"
    by (simp_all add: limitsDecl_def)
  have f: "settableFields orderDecl ! 5 = Symbol ''payload'' (Some tUnknown)"
    "5 < length (settableFields orderDecl)"
    by (simp_all add: orderDecl_fields orderFields_def)
  have u: "\<not> isUnion tUnknown" "classifiedType tUnknown = tUnknown"
    "getArrayElementType tUnknown = None" "getText tUnknown = ''unknown''"
    by (simp_all add: tUnknown_def classifiedType_def)
  have c: "\<not> primitiveByPredicates (classifiedType tUnknown)"
    by (simp only: u(2)) (simp add: primitiveByPredicates_def tUnknown_def flag_defs noFlags_def)
  note t = failure_and_fallback [of limitsDecl tUnknown orderDecl "[]"
      "builderFuncOf ''Order''" orderClass 5 tUnknown]
  from t l have e: "\<exists>e. generateBuilderFunc limitsDecl = Inl e" by simp
  from t c have m: "builderParameterTypeMapper tUnknown = ''DeepPartial<unknown>''"
    by (simp add: u replaceImports_short)
  from t orderDecl_generated f u(1) c
  have s: "methodTypeParameters (methods orderClass ! 5) = [''P extends DeepPartial<unknown>'']"
    by (simp add: u replaceImports_short)
  from l e orderDecl_generated f u(1,2) c m s show ?thesis
    by (intro conjI)
qed

text \<open>
  C2 as stated fails twice: \<open>unknown\<close> satisfies none of the predicates and is not
  rendered bare, in the mapper and in the setter of the field \<open>payload: unknown\<close>; and
  \<open>Limits\<close> makes the generator throw.
\<close>

theorem unclassified_type_counterexample:
  "\<not> isPrimitive tUnknown \<and>
   parametersType tUnknown = ''DeepPartial<unknown>'' \<and>
   generateBuilderFunc limitsDecl = Inl (NoValueDeclaration ''min'') \<and>
   generateBuilderFunc orderDecl =
     Inr \<lparr> warnings = [], returned = Some (builderFuncOf ''Order'', orderClass) \<rparr> \<and>
   settableFields orderDecl ! 5 = Symbol ''payload'' (Some tUnknown) \<and>
   methodTypeParameters (methods orderClass ! 5) = [''P extends DeepPartial<unknown>'']"
proof -
  have n: "\<not> isPrimitive tUnknown"
    by (simp add: tUnknown_def flag_defs noFlags_def)
  have "unionTypes tUnknown = [tUnknown]"
    by (simp add: unionTypes_def tUnknown_def)
  then have p: "parametersType tUnknown = ''DeepPartial<unknown>''"
    by (simp add: parametersType_def parameterAlternatives_def mapper_tUnknown)
  have l: "generateBuilderFunc limitsDecl = Inl (NoValueDeclaration ''min'')"
    by (simp add: limitsDecl_def generateBuilderFunc_def Let_def)
  have f: "settableFields orderDecl ! 5 = Symbol ''payload'' (Some tUnknown)"
    by (simp add: orderDecl_fields orderFields_def)
  have "methodTypeParameters (methods orderClass ! 5) =
          [''P extends '' @ parametersType (snd (orderFields ! 5))]"
    by (rule orderClass_accepted) (simp add: orderFields_def)
  then have m: "methodTypeParameters (methods orderClass ! 5) =
                  [''P extends DeepPartial<unknown>'']"
    by (simp add: orderFields_def p)
  from n p l orderDecl_generated f m show ?thesis
    by (intro conjI)
qed

section \<open>The discriminator tag\<close>

text \<open>
  C9. In a generated class no method is a setter of \<open>__typename\<close>: none is named
  \<open>with__typename\<close> and none assigns its argument to \<open>this.obj.__typename\<close>. The class
  has the method \<open>includeTypename\<close>, whose body is the one assignment of the
  declaration's name, as a string literal, to \<open>this.obj.__typename\<close>; run on any
  accumulator and with any argument, it leaves that accumulator with \<open>__typename\<close> set
  to the declaration's name.
\<close>

theorem tag_never_set_always_stamped:
  assumes "generateBuilderFunc d = Inr \<lparr> warnings = w, returned = Some (bf, cls) \<rparr>"
  shows "(\<forall>m \<in> set (methods cls).
            methodName m \<noteq> ''with__typename'' \<and>
            ''this.obj.__typename = val;'' \<notin> set (methodStatements m)) \<and>
         includeTypenameMethod (getName d) \<in> set (methods cls) \<and>
         methodStatements (includeTypenameMethod (getName d)) =
           [''// @ts-ignore'',
            ''this.obj.__typename = '' @ [squote] @ getName d @ [squote] @ '';'',
            ''return this;''] \<and>
         (list_all literalChar (getName d) \<longrightarrow>
            runBody val (methodStatements (includeTypenameMethod (getName d))) obj =
              Some (obj(''__typename'' \<mapsto> StringValue (getName d))))"
proof (intro conjI ballI impI)
  note ms = generated_methods [OF assms(1)]
  fix m assume "m \<in> set (methods cls)"
  then consider p where "p \<in> set (settableFields d)"
      "m = setterMethod (getName d @ ''Builder'') (symbolName p) (the (valueDeclarationType p))"
    | "m = includeTypenameMethod (getName d)" | "m = getMethod (getName d)"
    unfolding ms by auto
  then have "methodName m \<noteq> ''with__typename'' \<and>
             ''this.obj.__typename = val;'' \<notin> set (methodStatements m)"
  proof cases
    case 1
    then have "symbolName p \<noteq> ''__typename''" by (simp add: settableFields_def)
    from setter_not_for_tag [OF this] 1(2) show ?thesis by blast
  next
    case 2
    then show ?thesis by (simp add: includeTypenameMethod_def squote_def)
  next
    case 3
    then show ?thesis by (simp add: getMethod_def)
  qed
  then show "methodName m \<noteq> ''with__typename''"
    and "''this.obj.__typename = val;'' \<notin> set (methodStatements m)" by simp_all
next
  show "includeTypenameMethod (getName d) \<in> set (methods cls)"
    by (simp add: generated_methods [OF assms(1)])
  show "methodStatements (includeTypenameMethod (getName d)) =
           [''// @ts-ignore'',
            ''this.obj.__typename = '' @ [squote] @ getName d @ [squote] @ '';'',
            ''return this;'']"
    by (simp add: includeTypenameMethod_def)
next
  assume "list_all literalChar (getName d)"
  then show "runBody val (methodStatements (includeTypenameMethod (getName d))) obj =
           Some (obj(''__typename'' \<mapsto> StringValue (getName d)))"
    by (rule run_includeTypename)
qed

theorem tag_never_set_always_stamped_witness:
  "generateBuilderFunc circleDecl =
     Inr \<lparr> warnings = [], returned = Some (builderFuncOf ''Circle'', circleClass) \<rparr> \<and>
   list_all literalChar (getName circleDecl) \<and>
   includeTypenameMethod ''Circle'' \<in> set (methods circleClass) \<and>
   runBody (OtherValue 7) (methodStatements (includeTypenameMethod ''Circle''))
       [''__typename'' \<mapsto> StringValue ''Square'', ''radius'' \<mapsto> OtherValue 2] =
     Some [''__typename'' \<mapsto> StringValue ''Circle'', ''radius'' \<mapsto> OtherValue 2]"
proof -
  have n: "getName circleDecl = ''Circle''" by (simp add: circleDecl_def)
  have l: "list_all literalChar (getName circleDecl)"
    by (simp add: n literalChar_def squote_def)
  have e: "[''__typename'' \<mapsto> StringValue ''Square'', ''radius'' \<mapsto> OtherValue 2]
             (''__typename'' \<mapsto> StringValue ''Circle'') =
           [''__typename'' \<mapsto> StringValue ''Circle'', ''radius'' \<mapsto> OtherValue 2]"
    by (rule ext) simp
  note t = tag_never_set_always_stamped [OF circleDecl_generated, of "OtherValue 7"
      "[''__typename'' \<mapsto> StringValue ''Square'', ''radius'' \<mapsto> OtherValue 2]"]
  from t have a: "includeTypenameMethod (getName circleDecl) \<in> set (methods circleClass)"
    by blast
  from t l
  have b: "runBody (OtherValue 7) (methodStatements (includeTypenameMethod (getName circleDecl)))
             [''__typename'' \<mapsto> StringValue ''Square'', ''radius'' \<mapsto> OtherValue 2] =
           Some ([''__typename'' \<mapsto> StringValue ''Square'', ''radius'' \<mapsto> OtherValue 2]
                   (''__typename'' \<mapsto> StringValue (getName circleDecl)))"
    by blast
  from a have a': "includeTypenameMethod ''Circle'' \<in> set (methods circleClass)"
    by (simp only: n)
  from b have b': "runBody (OtherValue 7) (methodStatements (includeTypenameMethod ''Circle''))
             [''__typename'' \<mapsto> StringValue ''Square'', ''radius'' \<mapsto> OtherValue 2] =
           Some [''__typename'' \<mapsto> StringValue ''Circle'', ''radius'' \<mapsto> OtherValue 2]"
    by (simp only: n e)
  from circleDecl_generated l a' b' show ?thesis by (intro conjI)
qed

end
